theory Spec2Isabelle
  imports Main "HOL-Library.Sublist"
begin

section \<open>JavaScript values\<close>

text \<open>
  The values the plugin handles: request payloads, response sources, route parameters,
  user names. A stream (a proxied body) is opaque and carries only an identity.
\<close>

datatype jsval =
    Undefined
  | Null
  | Bool bool
  | Num int
  | Str string
  | Arr "jsval list"
  | Obj "(string \<times> jsval) list"
  | Stream nat

datatype error = Error string | TypeError string | SyntaxError string

fun message :: "error \<Rightarrow> string" where
  "message (Error m) = m"
| "message (TypeError m) = m"
| "message (SyntaxError m) = m"

text \<open>\<open>v == null\<close> holds of \<open>null\<close> and \<open>undefined\<close>; \<open>v === null\<close> only of \<open>null\<close>.\<close>

fun nullish :: "jsval \<Rightarrow> bool" where
  "nullish Undefined = True"
| "nullish Null = True"
| "nullish _ = False"

fun truthy :: "jsval \<Rightarrow> bool" where
  "truthy Undefined = False"
| "truthy Null = False"
| "truthy (Bool b) = b"
| "truthy (Num n) = (n \<noteq> 0)"
| "truthy (Str s) = (s \<noteq> [])"
| "truthy _ = True"

text \<open>\<open>a || b\<close> on values.\<close>

definition js_or :: "jsval \<Rightarrow> jsval \<Rightarrow> jsval" where
  "js_or a b = (if truthy a then a else b)"

text \<open>
  \<open>o[key]\<close>: a TypeError on \<open>null\<close> and \<open>undefined\<close>, the own property of an object,
  \<open>undefined\<close> where there is none. Properties that primitives, arrays and streams
  inherit from their prototypes are not modelled.
\<close>

fun lookup :: "(string \<times> jsval) list \<Rightarrow> string \<Rightarrow> jsval" where
  "lookup [] k = Undefined"
| "lookup ((k', v) # kvs) k = (if k' = k then v else lookup kvs k)"

fun getProp :: "jsval \<Rightarrow> string \<Rightarrow> error + jsval" where
  "getProp Undefined k =
     Inl (TypeError (''Cannot read properties of undefined (reading '' @ [CHR 0x27] @ k
                       @ [CHR 0x27] @ '')''))"
| "getProp Null k =
     Inl (TypeError (''Cannot read properties of null (reading '' @ [CHR 0x27] @ k
                       @ [CHR 0x27] @ '')''))"
| "getProp (Obj kvs) k = Inr (lookup kvs k)"
| "getProp _ k = Inr Undefined"

text \<open>\<open>toLowerCase\<close> and \<open>toUpperCase\<close>, on the ASCII letters.\<close>

definition upper_letters :: string where
  "upper_letters = ''ABCDEFGHIJKLMNOPQRSTUVWXYZ''"

definition lower_letters :: string where
  "lower_letters = ''abcdefghijklmnopqrstuvwxyz''"

definition toLowerCase :: "string \<Rightarrow> string" where
  "toLowerCase s =
     map (\<lambda>c. case map_of (zip upper_letters lower_letters) c of Some d \<Rightarrow> d | None \<Rightarrow> c) s"

definition toUpperCase :: "string \<Rightarrow> string" where
  "toUpperCase s =
     map (\<lambda>c. case map_of (zip lower_letters upper_letters) c of Some d \<Rightarrow> d | None \<Rightarrow> c) s"

section \<open>Audit records (src/dtos)\<close>

text \<open>
  Modelled from the spec: \<open>../enums\<close> is not among the sources. The spec names the
  mutation actions UPDATE, CREATE and DELETE, the record types MUTATION and ACTION,
  the default read action SEARCH and the default outcome SUCCESS.
\<close>

definition MUTATION_UPDATE :: string where "MUTATION_UPDATE = ''UPDATE''"
definition MUTATION_CREATE :: string where "MUTATION_CREATE = ''CREATE''"
definition MUTATION_DELETE :: string where "MUTATION_DELETE = ''DELETE''"
definition EVENT_TYPE_MUTATION :: string where "EVENT_TYPE_MUTATION = ''MUTATION''"
definition AUDIT_TYPE_SEARCH :: string where "AUDIT_TYPE_SEARCH = ''SEARCH''"
definition AUDIT_OUTCOME_SUCCESS :: string where "AUDIT_OUTCOME_SUCCESS = ''SUCCESS''"

record audit_body =
  entity :: jsval
  entityId :: jsval
  action :: jsval
  username :: jsval
  timestamp :: nat

record mutation_body = audit_body +
  originalValues :: jsval
  newValues :: jsval

record action_body = audit_body +
  data :: jsval

text \<open>
  The two record classes, each with the fields \<open>application\<close>, \<open>type\<close>, \<open>body\<close> and
  \<open>outcome\<close> in this order.
\<close>

datatype audit_record =
    AuditMutation jsval jsval mutation_body jsval
  | AuditAction jsval jsval action_body jsval

fun isMutation :: "audit_record \<Rightarrow> bool" where
  "isMutation (AuditMutation _ _ _ _) = True"
| "isMutation (AuditAction _ _ _ _) = False"

text \<open>A destructuring default \<open>x = {}\<close> applies when the property is \<open>undefined\<close>.\<close>

definition default_obj :: "jsval \<Rightarrow> jsval" where
  "default_obj v = (if v = Undefined then Obj [] else v)"

text \<open>
  The constructor of AuditMutationBody; \<open>timestamp = new Date()\<close> is the clock reading
  \<open>now\<close> of the host.
\<close>

definition AuditMutationBody_new ::
  "jsval \<Rightarrow> jsval \<Rightarrow> jsval \<Rightarrow> jsval \<Rightarrow> jsval \<Rightarrow> jsval \<Rightarrow> nat \<Rightarrow> mutation_body" where
  "AuditMutationBody_new entity_in entityId_in action_in username_in originalValues_in
       newValues_in now =
     \<lparr>entity = entity_in, entityId = entityId_in, action = action_in,
      username = username_in, timestamp = now,
      originalValues = default_obj originalValues_in,
      newValues = default_obj newValues_in\<rparr>"

text \<open>
  The constructor of AuditMutation (src/dtos/AuditMutation.js). The arguments are the
  properties of \<open>input\<close>, \<open>Undefined\<close> for one that is not given.
\<close>

definition AuditMutation_new ::
  "string \<Rightarrow> jsval \<Rightarrow> jsval \<Rightarrow> jsval \<Rightarrow> jsval \<Rightarrow> jsval \<Rightarrow> jsval \<Rightarrow> jsval \<Rightarrow> jsval \<Rightarrow> nat
     \<Rightarrow> audit_record" where
  "AuditMutation_new method_in action_in entity_in entityId_in username_in outcome_in
       application_in originalValues_in newValues_in now =
     (let outcome = (if outcome_in = Undefined then Str AUDIT_OUTCOME_SUCCESS else outcome_in);
          originalValues0 = default_obj originalValues_in;
          newValues0 = default_obj newValues_in;
          httpAction =
            (if \<not> truthy action_in \<and> toLowerCase method_in = ''put''
               then Str MUTATION_UPDATE
             else if \<not> truthy action_in \<and> toLowerCase method_in = ''post''
               then Str MUTATION_CREATE
             else if \<not> truthy action_in \<and> toLowerCase method_in = ''delete''
               then Str MUTATION_DELETE
             else Null)
      in AuditMutation application_in (Str EVENT_TYPE_MUTATION)
           (AuditMutationBody_new entity_in entityId_in (js_or action_in httpAction)
              username_in originalValues0 newValues0 now)
           outcome)"

text \<open>
  Modelled from the spec: AuditActionBody is not among the sources. The spec gives an
  Action record the fields entity, entityId, username, action, data and timestamp.
\<close>

definition AuditActionBody_new ::
  "jsval \<Rightarrow> jsval \<Rightarrow> jsval \<Rightarrow> jsval \<Rightarrow> jsval \<Rightarrow> nat \<Rightarrow> action_body" where
  "AuditActionBody_new entity_in entityId_in action_in username_in data_in now =
     \<lparr>entity = entity_in, entityId = entityId_in, action = action_in,
      username = username_in, timestamp = now, data = data_in\<rparr>"

text \<open>The constructor of AuditAction.\<close>

definition AuditAction_new ::
  "jsval \<Rightarrow> jsval \<Rightarrow> jsval \<Rightarrow> jsval \<Rightarrow> jsval \<Rightarrow> jsval \<Rightarrow> jsval \<Rightarrow> jsval \<Rightarrow> nat
     \<Rightarrow> audit_record" where
  "AuditAction_new type_in entity_in entityId_in action_in username_in data_in outcome_in
       application_in now =
     (let data0 = default_obj data_in;
          outcome = (if outcome_in = Undefined then Str AUDIT_OUTCOME_SUCCESS else outcome_in)
      in AuditAction application_in type_in
           (AuditActionBody_new entity_in entityId_in action_in username_in data0 now)
           outcome)"

text \<open>
  Modelled from the spec: \<open>createMutation\<close> and \<open>createAction\<close> of \<open>./utils\<close> are not
  among the sources. They are the AuditRecordBuilder of the spec: each passes the
  properties it is called with to the constructor of its record class, with
  \<open>clientId\<close> as the record's \<open>application\<close>.
\<close>

definition createMutation ::
  "string \<Rightarrow> string \<Rightarrow> jsval \<Rightarrow> jsval \<Rightarrow> jsval \<Rightarrow> jsval \<Rightarrow> jsval \<Rightarrow> nat \<Rightarrow> audit_record" where
  "createMutation method_in clientId_in entity_in entityId_in username_in originalValues_in
       newValues_in now =
     AuditMutation_new method_in Undefined entity_in entityId_in username_in Undefined
       (Str clientId_in) originalValues_in newValues_in now"

definition createAction ::
  "string \<Rightarrow> jsval \<Rightarrow> jsval \<Rightarrow> jsval \<Rightarrow> jsval \<Rightarrow> jsval \<Rightarrow> jsval \<Rightarrow> nat \<Rightarrow> audit_record" where
  "createAction clientId_in entity_in entityId_in username_in data_in action_in type_in now =
     AuditAction_new type_in entity_in entityId_in action_in username_in data_in Undefined
       (Str clientId_in) now"

section \<open>Requests, route settings, options\<close>

text \<open>
  The audit settings of a route (\<open>request.route.settings.plugins[name]\<close>). A property
  that the route does not set is \<open>Undefined\<close> (\<open>None\<close> for \<open>idParam\<close>).
\<close>

record route_config =
  rt_disabled :: jsval
  rt_action :: jsval
  rt_entity :: jsval
  rt_entityKeys :: jsval
  rt_idParam :: "string option"
  rt_getPath :: jsval
  rt_getPathId :: jsval
  rt_skipDiff :: jsval

text \<open>The default \<open>auditing = {}\<close> of a route with no settings for the plugin.\<close>

definition no_auditing :: route_config where
  "no_auditing =
     \<lparr>rt_disabled = Undefined, rt_action = Undefined, rt_entity = Undefined,
      rt_entityKeys = Undefined, rt_idParam = None, rt_getPath = Undefined,
      rt_getPathId = Undefined, rt_skipDiff = Undefined\<rparr>"

text \<open>
  What the handlers read of a request: \<open>url.pathname\<close>, \<open>method\<close>, \<open>headers\<close>,
  \<open>params\<close>, \<open>payload\<close>, \<open>query\<close>, \<open>auth\<close>, and, in the second phase,
  \<open>response.source\<close> and \<open>response.statusCode\<close>.
\<close>

record request =
  pathname :: string
  "method" :: string
  headers :: "(string \<times> jsval) list"
  params :: "(string \<times> jsval) list"
  payload :: jsval
  query :: jsval
  auth :: jsval
  response_source :: jsval
  response_statusCode :: jsval
  route_auditing :: "route_config option"

text \<open>\<open>const { [this.name]: auditing = {} } = request.route.settings.plugins\<close>.\<close>

definition auditing_of :: "request \<Rightarrow> route_config" where
  "auditing_of req = (case route_auditing req of None \<Rightarrow> no_auditing | Some a \<Rightarrow> a)"

text \<open>A subscriber of the audit event: the plugin's logger, or a function of the caller.\<close>

datatype subscriber = ConsoleLogger | Supplied nat

text \<open>The options of the plugin after destructuring, defaults filled in.\<close>

record config =
  auditGetRequests :: bool
  showErrorsOnStdErr :: bool
  diffFunc :: "jsval \<Rightarrow> jsval \<Rightarrow> jsval \<times> jsval"
  disableCache :: bool
  clientId :: string
  sidUsernameAttribute :: string
  emitEventName :: string
  cacheExpiresIn :: nat
  isAuditable :: "string \<Rightarrow> string \<Rightarrow> bool"
  eventHanler :: subscriber

text \<open>
  The helpers imported from \<open>./utils\<close> are not among the sources: the handlers are
  modelled over any implementation of them. \<open>removeProps\<close> changes its two first
  arguments in place; here it returns them as changed, or the error it throws.
\<close>

record utils =
  clone :: "jsval \<Rightarrow> jsval"
  isRead :: "string \<Rightarrow> bool"
  isCreate :: "string \<Rightarrow> bool"
  isUpdate :: "string \<Rightarrow> bool"
  isDelete :: "string \<Rightarrow> bool"
  isDisabled :: "route_config \<Rightarrow> bool"
  isLoggedIn :: "jsval \<Rightarrow> bool"
  getEntity :: "jsval \<Rightarrow> string \<Rightarrow> jsval"
  toEndpoint :: "string \<Rightarrow> string \<Rightarrow> jsval \<Rightarrow> string"
  isSuccessfulResponse :: "jsval \<Rightarrow> bool"
  getEntityId :: "jsval \<Rightarrow> jsval \<Rightarrow> jsval \<Rightarrow> jsval"
  gotResponseData :: "jsval \<Rightarrow> bool"
  shouldAuditRequest :: "string \<Rightarrow> bool \<Rightarrow> jsval \<Rightarrow> bool"
  removeProps :: "jsval \<Rightarrow> jsval \<Rightarrow> jsval \<Rightarrow> error + jsval \<times> jsval"
  isStream :: "jsval \<Rightarrow> bool"
  getUser :: "request \<Rightarrow> string \<Rightarrow> jsval"

text \<open>
  What the server does for one phase of one request: the answer of \<open>server.inject\<close> to
  the internal read (the response's payload text, or the error it rejects with),
  \<open>JSON.parse\<close>, and the clock.
\<close>

record host =
  server_inject :: "request \<Rightarrow> error + string"
  JSON_parse :: "string \<Rightarrow> error + jsval"
  now :: nat

section \<open>The state of the plugin and its effects\<close>

text \<open>
  The effects of the handlers, in the order they happen: the operations on
  \<open>oldValsCache\<close> (a read with the value it returned), the internal reads, the records
  emitted, and the two error channels.
\<close>

datatype event =
    CacheGet string jsval
  | CacheSet string jsval
  | CacheDelete string
  | Inject string
  | Emit string audit_record
  | ConsoleError string
  | RequestLog string

record state =
  oldValsCache :: "string \<rightharpoonup> jsval"
  auditValues :: "string \<rightharpoonup> audit_record"
  trace :: "event list"

definition initial :: state where
  "initial = \<lparr>oldValsCache = Map.empty, auditValues = Map.empty, trace = []\<rparr>"

definition emit_event :: "event \<Rightarrow> state \<Rightarrow> state" where
  "emit_event ev s = s\<lparr>trace := trace s @ [ev]\<rparr>"

text \<open>\<open>oldValsCache.get\<close>, \<open>.set\<close> and \<open>.delete\<close>; \<open>get\<close> of a missing key is \<open>undefined\<close>.\<close>

definition cacheGet :: "string \<Rightarrow> state \<Rightarrow> jsval \<times> state" where
  "cacheGet k s =
     (let v = (case oldValsCache s k of None \<Rightarrow> Undefined | Some x \<Rightarrow> x)
      in (v, emit_event (CacheGet k v) s))"

definition cacheSet :: "string \<Rightarrow> jsval \<Rightarrow> state \<Rightarrow> state" where
  "cacheSet k v s = emit_event (CacheSet k v) (s\<lparr>oldValsCache := (oldValsCache s)(k \<mapsto> v)\<rparr>)"

definition cacheDelete :: "string \<Rightarrow> state \<Rightarrow> state" where
  "cacheDelete k s = emit_event (CacheDelete k) (s\<lparr>oldValsCache := (oldValsCache s)(k := None)\<rparr>)"

definition plugin_name :: string where
  "plugin_name = ''hapi-audit-rest''"

definition ID_PARAM_DEFAULT :: string where
  "ID_PARAM_DEFAULT = ''id''"

definition FIVE_MINS_MSECS :: nat where
  "FIVE_MINS_MSECS = 300000"

definition handleError :: "config \<Rightarrow> error \<Rightarrow> state \<Rightarrow> state" where
  "handleError C e s =
     (let s1 = (if showErrorsOnStdErr C
                then emit_event (ConsoleError (''['' @ plugin_name @ ''] =======> ERROR: '' @ message e)) s
                else s)
      in emit_event (RequestLog (message e)) s1)"

text \<open>
  \<open>emitAuditEvent\<close>: a record that is not \<open>null\<close> or \<open>undefined\<close> is emitted and the
  entry of \<open>auditValues\<close> deleted; otherwise an error is thrown.
\<close>

definition emitAuditEvent ::
  "config \<Rightarrow> audit_record option \<Rightarrow> string \<Rightarrow> state \<Rightarrow> error option \<times> state" where
  "emitAuditEvent C rec routeEndpoint s =
     (case rec of
        Some r \<Rightarrow>
          (None, (emit_event (Emit (emitEventName C) r) s)
                   \<lparr>auditValues := (auditValues s)(routeEndpoint := None)\<rparr>)
      | None \<Rightarrow>
          (Some (Error (''Cannot audit null audit record for endpoint: '' @ routeEndpoint)), s))"

text \<open>\<open>fetchValues\<close>: the internal GET of the request's path, and the payload it answers.\<close>

definition fetchValues :: "host \<Rightarrow> request \<Rightarrow> state \<Rightarrow> (error + string) \<times> state" where
  "fetchValues H req s = (server_inject H req, emit_event (Inject (pathname req)) s)"

section \<open>The pre-handler phase\<close>

text \<open>What an extension handler hands back to the server.\<close>

datatype signal = Continue | Propagate error

text \<open>
  The UPDATE branch of the pre-handler (lines 133 to 184). The result is the error
  thrown, if any, and the state where the branch ends.
\<close>

definition preHandler_update ::
  "utils \<Rightarrow> config \<Rightarrow> host \<Rightarrow> request \<Rightarrow> route_config \<Rightarrow> jsval \<Rightarrow> state
     \<Rightarrow> error option \<times> state" where
  "preHandler_update U C H req auditing user s =
     (let idParam = (case rt_idParam auditing of None \<Rightarrow> ID_PARAM_DEFAULT | Some p \<Rightarrow> p);
          skipDiff = (if rt_skipDiff auditing = Undefined then Arr [] else rt_skipDiff auditing);
          ident = lookup (params req) idParam;
          getEndpoint = toEndpoint U ''get'' (pathname req) (rt_getPath auditing);
          routeEndpoint = toEndpoint U (method req) (pathname req) Undefined;
          isProxy = isStream U (payload req);
          newVals = (if isProxy then Null else clone U (payload req));
          (cached, s1) = (if \<not> disableCache C then cacheGet getEndpoint s else (Null, s));
          (fetched, s2) =
            (if nullish cached
             then (case fetchValues H req s1 of
                     (Inl e, s') \<Rightarrow> (Inl e, s')
                   | (Inr d, s') \<Rightarrow> (JSON_parse H d, s'))
             else (Inr cached, cacheDelete getEndpoint s1))
      in case fetched of
           Inl e \<Rightarrow> (Some e, s2)
         | Inr oldVals \<Rightarrow>
             if oldVals = Null
             then (Some (Error (''Cannot get data before update on '' @ routeEndpoint)), s2)
             else if isProxy then (None, cacheSet getEndpoint oldVals s2)
             else (case removeProps U oldVals newVals skipDiff of
                     Inl e \<Rightarrow> (Some e, s2)
                   | Inr (oldVals', newVals') \<Rightarrow>
                       (let (originalValues_d, newValues_d) = diffFunc C oldVals' newVals';
                            rec = createMutation (method req) (clientId C)
                                    (getEntity U (rt_entity auditing) (pathname req))
                                    (getEntityId U (rt_entityKeys auditing) ident newVals')
                                    user originalValues_d newValues_d (now H)
                        in (None, s2\<lparr>auditValues := (auditValues s2)(routeEndpoint \<mapsto> rec)\<rparr>))))"

text \<open>The DELETE branch of the pre-handler (lines 185 to 199).\<close>

definition preHandler_delete ::
  "utils \<Rightarrow> config \<Rightarrow> host \<Rightarrow> request \<Rightarrow> route_config \<Rightarrow> jsval \<Rightarrow> state
     \<Rightarrow> error option \<times> state" where
  "preHandler_delete U C H req auditing user s =
     (let idParam = (case rt_idParam auditing of None \<Rightarrow> ID_PARAM_DEFAULT | Some p \<Rightarrow> p);
          ident = lookup (params req) idParam;
          routeEndpoint = toEndpoint U (method req) (pathname req) Undefined
      in case fetchValues H req s of
           (Inl e, s1) \<Rightarrow> (Some e, s1)
         | (Inr fetched, s1) \<Rightarrow>
             (let rec = createMutation (method req) (clientId C)
                          (getEntity U (rt_entity auditing) (pathname req))
                          (getEntityId U (rt_entityKeys auditing) ident (Str fetched))
                          user (Str fetched) Undefined (now H)
              in (None, s1\<lparr>auditValues := (auditValues s1)(routeEndpoint \<mapsto> rec)\<rparr>)))"

text \<open>The body of the \<open>try\<close> of the pre-handler (lines 93 to 199).\<close>

definition preHandler_try ::
  "utils \<Rightarrow> config \<Rightarrow> host \<Rightarrow> request \<Rightarrow> state \<Rightarrow> error option \<times> state" where
  "preHandler_try U C H req s =
     (let auditing = auditing_of req;
          user = getUser U req (sidUsernameAttribute C)
      in if isDisabled U auditing \<or> \<not> isLoggedIn U user
              \<or> \<not> isAuditable C (pathname req) (method req) \<or> truthy (rt_action auditing)
         then (None, s)
         else if isUpdate U (method req) then preHandler_update U C H req auditing user s
         else if isDelete U (method req) then preHandler_delete U C H req auditing user s
         else (None, s))"

text \<open>
  The extension handler of \<open>onPreHandler\<close>: whatever the body throws is caught and
  passed to \<open>handleError\<close>, and the handler returns \<open>h.continue\<close>.
\<close>

definition onPreHandler ::
  "utils \<Rightarrow> config \<Rightarrow> host \<Rightarrow> request \<Rightarrow> state \<Rightarrow> signal \<times> state" where
  "onPreHandler U C H req s =
     (case preHandler_try U C H req s of
        (None, s') \<Rightarrow> (Continue, s')
      | (Some e, s') \<Rightarrow> (Continue, handleError C e s'))"

section \<open>The pre-response phase\<close>

text \<open>
  The action override (lines 255 to 271): the record it builds, \<open>None\<close> where \<open>rec\<close>
  stays \<open>null\<close>.
\<close>

definition preResponse_override ::
  "utils \<Rightarrow> config \<Rightarrow> host \<Rightarrow> request \<Rightarrow> route_config \<Rightarrow> jsval
     \<Rightarrow> error + audit_record option" where
  "preResponse_override U C H req auditing user =
     (let idParam = (case rt_idParam auditing of None \<Rightarrow> ID_PARAM_DEFAULT | Some p \<Rightarrow> p)
      in if truthy (rt_action auditing)
              \<and> (isUpdate U (method req) \<or> isCreate U (method req))
              \<and> isSuccessfulResponse U (response_statusCode req)
         then (case (if truthy (lookup (params req) idParam)
                     then Inr (lookup (params req) idParam)
                     else getProp (payload req) idParam) of
                 Inl e \<Rightarrow> Inl e
               | Inr ident \<Rightarrow>
                   Inr (Some (createAction (clientId C)
                          (getEntity U (rt_entity auditing) (pathname req))
                          (getEntityId U (rt_entityKeys auditing) ident (payload req))
                          user (payload req) (rt_action auditing) (rt_action auditing) (now H))))
         else Inr None)"

text \<open>\<open>(action && action.toUpperCase()) || AUDIT_TYPE.SEARCH\<close> of the READ branch.\<close>

definition read_action :: "jsval \<Rightarrow> error + jsval" where
  "read_action a =
     (if truthy a
      then (case a of
              Str x \<Rightarrow> Inr (js_or (Str (toUpperCase x)) (Str AUDIT_TYPE_SEARCH))
            | _ \<Rightarrow> Inl (TypeError ''action.toUpperCase is not a function''))
      else Inr (js_or a (Str AUDIT_TYPE_SEARCH)))"

text \<open>
  The chain of branches on the verb (lines 273 to 334), from the record \<open>rec0\<close> that
  the override left.
\<close>

definition preResponse_record ::
  "utils \<Rightarrow> config \<Rightarrow> host \<Rightarrow> request \<Rightarrow> route_config \<Rightarrow> jsval \<Rightarrow> audit_record option
     \<Rightarrow> state \<Rightarrow> (error + audit_record option) \<times> state" where
  "preResponse_record U C H req auditing user rec0 s =
     (let idParam = (case rt_idParam auditing of None \<Rightarrow> ID_PARAM_DEFAULT | Some p \<Rightarrow> p);
          skipDiff = rt_skipDiff auditing;
          injected = lookup (headers req) ''injected'';
          source = response_source req;
          statusCode = response_statusCode req;
          routeEndpoint = toEndpoint U (method req) (pathname req) Undefined;
          getEndpoint = toEndpoint U ''get'' (pathname req) (rt_getPath auditing);
          entity0 = getEntity U (rt_entity auditing) (pathname req)
      in if isRead U (method req) \<and> isSuccessfulResponse U statusCode \<and> nullish injected
         then (let ident = lookup (params req) idParam;
                   s1 = (if truthy ident \<and> \<not> disableCache C \<and> \<not> isStream U source
                         then cacheSet getEndpoint source s else s)
               in case read_action (rt_action auditing) of
                    Inl e \<Rightarrow> (Inl e, s1)
                  | Inr act \<Rightarrow>
                      (Inr (Some (createAction (clientId C) entity0
                                    (getEntityId U (rt_entityKeys auditing) ident Undefined)
                                    user (query req) act Undefined (now H))), s1))
         else if isUpdate U (method req) \<and> isSuccessfulResponse U statusCode
         then (let ident = lookup (params req) idParam;
                   (oldVals, s1) = cacheGet getEndpoint s
               in if isStream U source
                  then (case fetchValues H req s1 of
                          (Inl e, s2) \<Rightarrow> (Inl e, s2)
                        | (Inr d, s2) \<Rightarrow>
                            (case JSON_parse H d of
                               Inl e \<Rightarrow> (Inl e, s2)
                             | Inr newVals \<Rightarrow>
                                 (case removeProps U oldVals newVals skipDiff of
                                    Inl e \<Rightarrow> (Inl e, s2)
                                  | Inr (oldVals', newVals') \<Rightarrow>
                                      (let (originalValues_d, newValues_d) =
                                             diffFunc C oldVals' newVals';
                                           rec = createMutation (method req) (clientId C) entity0
                                                   (getEntityId U (rt_entityKeys auditing) ident newVals')
                                                   user originalValues_d newValues_d (now H)
                                       in (Inr (Some rec), cacheDelete getEndpoint s2)))))
                  else (Inr (auditValues s1 routeEndpoint), s1))
         else if isDelete U (method req) \<and> isSuccessfulResponse U statusCode
         then (Inr (auditValues s routeEndpoint), s)
         else if isCreate U (method req) \<and> isSuccessfulResponse U statusCode
         then (case (if gotResponseData U source then getProp source idParam
                     else getProp (payload req) idParam) of
                 Inl e \<Rightarrow> (Inl e, s)
               | Inr ident \<Rightarrow>
                   (let data0 = (if gotResponseData U source then source else payload req);
                        rec = createMutation (method req) (clientId C) entity0
                                (getEntityId U (rt_entityKeys auditing) ident data0)
                                user Undefined data0 (now H)
                    in (Inr (Some rec), s)))
         else (Inr rec0, s))"

text \<open>The body of the \<open>try\<close> of the pre-response handler (lines 210 to 339).\<close>

definition preResponse_try ::
  "utils \<Rightarrow> config \<Rightarrow> host \<Rightarrow> request \<Rightarrow> state \<Rightarrow> error option \<times> state" where
  "preResponse_try U C H req s =
     (let auditing = auditing_of req;
          user = getUser U req (sidUsernameAttribute C);
          injected = lookup (headers req) ''injected''
      in if isDisabled U auditing \<or> \<not> isLoggedIn U user
              \<or> \<not> isAuditable C (pathname req) (method req)
         then (None, s)
         else (let routeEndpoint = toEndpoint U (method req) (pathname req) Undefined
               in case preResponse_override U C H req auditing user of
                    Inl e \<Rightarrow> (Some e, s)
                  | Inr rec0 \<Rightarrow>
                      (case preResponse_record U C H req auditing user rec0 s of
                         (Inl e, s1) \<Rightarrow> (Some e, s1)
                       | (Inr rec, s1) \<Rightarrow>
                           if shouldAuditRequest U (method req) (auditGetRequests C) injected
                           then emitAuditEvent C rec routeEndpoint s1
                           else (None, s1))))"

definition onPreResponse ::
  "utils \<Rightarrow> config \<Rightarrow> host \<Rightarrow> request \<Rightarrow> state \<Rightarrow> signal \<times> state" where
  "onPreResponse U C H req s =
     (case preResponse_try U C H req s of
        (None, s') \<Rightarrow> (Continue, s')
      | (Some e, s') \<Rightarrow> (Continue, handleError C e s'))"

text \<open>The timer of \<open>setInterval\<close>: \<open>oldValsCache = new Map()\<close>.\<close>

definition sweep :: "state \<Rightarrow> state" where
  "sweep s = s\<lparr>oldValsCache := Map.empty\<rparr>"

text \<open>
  A run of the plugin: the phases of the requests and the ticks of the timer, in the
  order the server runs them.
\<close>

datatype step = PreHandler host request | PreResponse host request | Sweep

fun exec :: "utils \<Rightarrow> config \<Rightarrow> step \<Rightarrow> state \<Rightarrow> state" where
  "exec U C (PreHandler H req) s = snd (onPreHandler U C H req s)"
| "exec U C (PreResponse H req) s = snd (onPreResponse U C H req s)"
| "exec U C Sweep s = sweep s"

fun run :: "utils \<Rightarrow> config \<Rightarrow> step list \<Rightarrow> state \<Rightarrow> state" where
  "run U C [] s = s"
| "run U C (st # sts) s = run U C sts (exec U C st s)"

text \<open>The records a state has seen emitted, oldest first.\<close>

fun emitted :: "event list \<Rightarrow> audit_record list" where
  "emitted [] = []"
| "emitted (Emit n r # evs) = r # emitted evs"
| "emitted (_ # evs) = emitted evs"

section \<open>Registration\<close>

text \<open>
  The options object handed to \<open>register\<close>: a property is a flag, a number, a text, a
  diff function, a path predicate or an event handler.
\<close>

datatype optval =
    OBool bool
  | ONum nat
  | OStr string
  | ODiff "jsval \<Rightarrow> jsval \<Rightarrow> jsval \<times> jsval"
  | OPred "string \<Rightarrow> string \<Rightarrow> bool"
  | OFun subscriber

type_synonym options = "string \<rightharpoonup> optval"

text \<open>
  What \<open>register\<close> leaves behind: the settings the handlers close over, the events
  registered on the server with their listeners, the period of the cache timer and
  the two empty stores.
\<close>

record plugin =
  settings :: config
  server_events :: "string list"
  listeners :: "(string \<times> subscriber) list"
  interval :: nat
  stores :: state

text \<open>
  The destructuring of the options (lines 36 to 50). Each option is read under the
  name the destructuring gives it; a property of another kind than the option's,
  which the validation is taken to refuse, leaves the default.
\<close>

definition read_options :: "options \<Rightarrow> config" where
  "read_options opts =
     \<lparr>auditGetRequests =
        (case opts ''auditGetRequests'' of Some (OBool b) \<Rightarrow> b | _ \<Rightarrow> True),
      showErrorsOnStdErr =
        (case opts ''showErrorsOnStdErr'' of Some (OBool b) \<Rightarrow> b | _ \<Rightarrow> True),
      diffFunc =
        (case opts ''diffFunc'' of Some (ODiff f) \<Rightarrow> f
         | _ \<Rightarrow> (\<lambda>oldVals newVals. (Obj [], Obj []))),
      disableCache =
        (case opts ''disableCache'' of Some (OBool b) \<Rightarrow> b | _ \<Rightarrow> False),
      clientId =
        (case opts ''clientId'' of Some (OStr x) \<Rightarrow> x | _ \<Rightarrow> ''client-app''),
      sidUsernameAttribute =
        (case opts ''sidUsernameAttribute'' of Some (OStr x) \<Rightarrow> x | _ \<Rightarrow> ''userName''),
      emitEventName =
        (case opts ''emitEventName'' of Some (OStr x) \<Rightarrow> x | _ \<Rightarrow> ''auditing''),
      cacheExpiresIn =
        (case opts ''cacheExpiresIn'' of Some (ONum n) \<Rightarrow> n | _ \<Rightarrow> FIVE_MINS_MSECS),
      isAuditable =
        (case opts ''isAuditable'' of Some (OPred f) \<Rightarrow> f
         | _ \<Rightarrow> (\<lambda>path meth. take (length ''/api'') path = ''/api'')),
      eventHanler =
        (case opts ''eventHanler'' of Some (OFun f) \<Rightarrow> f | _ \<Rightarrow> ConsoleLogger)\<rparr>"

text \<open>
  \<open>register\<close> (lines 30 to 60 and 347 to 349). \<open>validateSchema\<close> of \<open>./validations\<close>
  is not among the sources: it is a parameter, \<open>Some e\<close> where it throws \<open>e\<close>.
\<close>

definition register :: "(options \<Rightarrow> error option) \<Rightarrow> options \<Rightarrow> error + plugin" where
  "register validateSchema opts =
     (case validateSchema opts of
        Some e \<Rightarrow> Inl e
      | None \<Rightarrow>
          (let C = read_options opts
           in Inr \<lparr>settings = C,
                   server_events = [emitEventName C],
                   listeners = [(emitEventName C, eventHanler C)],
                   interval = cacheExpiresIn C,
                   stores = initial\<rparr>))"

text \<open>The listeners that an emission on event \<open>n\<close> reaches.\<close>

definition subscribers :: "plugin \<Rightarrow> string \<Rightarrow> subscriber list" where
  "subscribers P n = map snd (filter (\<lambda>(n', f). n' = n) (listeners P))"

section \<open>An implementation of the helpers\<close>

text \<open>
  Modelled from the spec: the helpers of \<open>./utils\<close> are not among the sources. The
  verbs READ, CREATE, UPDATE and DELETE are GET, POST, PUT and DELETE; a successful
  response is any 2xx status code; a user is logged in when a username is resolved;
  a route is disabled when its settings say so; the key of an endpoint is the verb
  and the route's read path, or else the request path; a record is published unless
  the request is an internally injected read or a read while GET auditing is off;
  \<open>removeProps\<close> removes the skip-listed fields from both objects; the entity is the
  configured one, or else taken from the path (users for /api/users/42); the entity
  identity prefers the key fields of \<open>entityKeys\<close> found in the object and falls back
  to the id parameter; the user name is read from the session under the configured
  attribute. These definitions serve the concrete instances only.
\<close>

fun without_keys :: "jsval \<Rightarrow> jsval \<Rightarrow> jsval" where
  "without_keys (Arr ks) (Obj kvs) = Obj (filter (\<lambda>kv. Str (fst kv) \<notin> set ks) kvs)"
| "without_keys ks v = v"

fun segments :: "string \<Rightarrow> string list" where
  "segments [] = [[]]"
| "segments (c # cs) =
     (if c = CHR ''/'' then [] # segments cs
      else (case segments cs of seg # rest \<Rightarrow> (c # seg) # rest | [] \<Rightarrow> [[c]]))"

fun keys_of :: "jsval \<Rightarrow> jsval \<Rightarrow> (string \<times> jsval) list" where
  "keys_of (Arr (Str k # ks)) (Obj kvs) =
     (if lookup kvs k = Undefined then keys_of (Arr ks) (Obj kvs)
      else (k, lookup kvs k) # keys_of (Arr ks) (Obj kvs))"
| "keys_of ks v = []"

definition utils_spec :: utils where
  "utils_spec =
     \<lparr>clone = (\<lambda>v. v),
      isRead = (\<lambda>m. toLowerCase m = ''get''),
      isCreate = (\<lambda>m. toLowerCase m = ''post''),
      isUpdate = (\<lambda>m. toLowerCase m = ''put''),
      isDelete = (\<lambda>m. toLowerCase m = ''delete''),
      isDisabled = (\<lambda>a. truthy (rt_disabled a)),
      isLoggedIn = (\<lambda>u. \<not> nullish u),
      getEntity = (\<lambda>e path. if truthy e then e
                     else (case segments path of
                             a # b # c # rest \<Rightarrow> Str c
                           | _ \<Rightarrow> Str path)),
      toEndpoint = (\<lambda>m path getPath. m @ '':''
                      @ (case getPath of Str p \<Rightarrow> p | _ \<Rightarrow> path)),
      isSuccessfulResponse = (\<lambda>c. case c of Num n \<Rightarrow> 200 \<le> n \<and> n \<le> 299 | _ \<Rightarrow> False),
      getEntityId = (\<lambda>ks ident v. if keys_of ks v = [] then ident else Obj (keys_of ks v)),
      gotResponseData = (\<lambda>v. \<not> nullish v),
      shouldAuditRequest = (\<lambda>m auditGets injected.
                              toLowerCase m \<noteq> ''get'' \<or> (nullish injected \<and> auditGets)),
      removeProps = (\<lambda>left right props. Inr (without_keys props left, without_keys props right)),
      isStream = (\<lambda>v. case v of Stream n \<Rightarrow> True | _ \<Rightarrow> False),
      getUser = (\<lambda>req attr. case getProp (auth req) attr of Inl e \<Rightarrow> Undefined | Inr u \<Rightarrow> u)\<rparr>"

section \<open>Reading records, and concrete instances\<close>

fun body_action :: "audit_record \<Rightarrow> jsval" where
  "body_action (AuditMutation app ty b out) = action b"
| "body_action (AuditAction app ty b out) = action b"

fun body_originalValues :: "audit_record \<Rightarrow> jsval option" where
  "body_originalValues (AuditMutation app ty b out) = Some (originalValues b)"
| "body_originalValues (AuditAction app ty b out) = None"

fun body_newValues :: "audit_record \<Rightarrow> jsval option" where
  "body_newValues (AuditMutation app ty b out) = Some (newValues b)"
| "body_newValues (AuditAction app ty b out) = None"

text \<open>The events of a run from \<open>s\<close> to \<open>s'\<close>: what the trace gained.\<close>

definition events_since :: "state \<Rightarrow> state \<Rightarrow> event list" where
  "events_since s s' = drop (length (trace s)) (trace s')"

text \<open>The settings of a plugin registered with no options.\<close>

definition default_settings :: config where
  "default_settings =
     \<lparr>auditGetRequests = True, showErrorsOnStdErr = True,
      diffFunc = (\<lambda>oldVals newVals. (Obj [], Obj [])),
      disableCache = False, clientId = ''client-app'', sidUsernameAttribute = ''userName'',
      emitEventName = ''auditing'', cacheExpiresIn = FIVE_MINS_MSECS,
      isAuditable = (\<lambda>path meth. take (length ''/api'') path = ''/api''),
      eventHanler = ConsoleLogger\<rparr>"

text \<open>A diff function that hands both sides back.\<close>

definition pass_through :: "jsval \<Rightarrow> jsval \<Rightarrow> jsval \<times> jsval" where
  "pass_through oldVals newVals = (oldVals, newVals)"

text \<open>
  A server whose internal read of a user answers one JSON text, and one whose
  internal read fails. \<open>parse_demo\<close> is \<open>JSON.parse\<close> on the texts used here.
\<close>

definition user_text :: string where
  \<open>user_text = ''{"name":"A"}''\<close>

definition parse_demo :: "string \<Rightarrow> error + jsval" where
  "parse_demo t =
     (if t = user_text then Inr (Obj [(''name'', Str ''A'')])
      else if t = ''null'' then Inr Null
      else Inl (SyntaxError ''Unexpected token in JSON''))"

definition host_up :: host where
  "host_up = \<lparr>server_inject = (\<lambda>req. Inr user_text), JSON_parse = parse_demo, now = 1000\<rparr>"

definition host_down :: host where
  "host_down = \<lparr>server_inject = (\<lambda>req. Inl (Error ''socket hang up'')),
                 JSON_parse = parse_demo, now = 1000\<rparr>"

text \<open>
  A request of user alice for \<open>/api/users/42\<close>, by verb, payload, response source and
  status code, on a route with the audit settings \<open>a\<close>.
\<close>

definition user_request ::
  "string \<Rightarrow> jsval \<Rightarrow> jsval \<Rightarrow> int \<Rightarrow> route_config option \<Rightarrow> request" where
  "user_request verb body source code a =
     \<lparr>pathname = ''/api/users/42'', method = verb, headers = [],
      params = [(''id'', Str ''42'')], payload = body,
      query = Obj [], auth = Obj [(''userName'', Str ''alice'')],
      response_source = source, response_statusCode = Num code,
      route_auditing = a\<rparr>"

text \<open>The requests of the concrete instances.\<close>

definition put_user :: request where
  "put_user = user_request ''put'' (Obj [(''name'', Str ''B'')]) (Obj [(''name'', Str ''B'')]) 200 None"

definition put_user_failed :: request where
  "put_user_failed = user_request ''put'' (Obj [(''name'', Str ''B'')]) Null 500 None"

definition delete_user :: request where
  "delete_user = user_request ''delete'' Undefined Null 204 None"

definition post_approval :: request where
  "post_approval =
     user_request ''post'' (Obj [(''id'', Num 42), (''name'', Str ''A'')])
       (Obj [(''id'', Num 42), (''name'', Str ''A'')]) 201
       (Some (no_auditing\<lparr>rt_action := Str ''approve''\<rparr>))"

text \<open>States whose cache holds a baseline of the user, as a GET leaves it.\<close>

definition cached_user :: state where
  "cached_user = initial\<lparr>oldValsCache := [''get:/api/users/42'' \<mapsto> Obj [(''name'', Str ''A'')]]\<rparr>"

definition cached_stamped_user :: state where
  "cached_stamped_user =
     initial\<lparr>oldValsCache :=
       [''get:/api/users/42'' \<mapsto> Obj [(''name'', Str ''A''), (''updatedAt'', Num 1)]]\<rparr>"

definition put_stamped_user :: request where
  "put_stamped_user =
     user_request ''put'' (Obj [(''name'', Str ''B''), (''updatedAt'', Num 2)])
       (Obj [(''name'', Str ''B''), (''updatedAt'', Num 2)]) 200
       (Some (no_auditing\<lparr>rt_skipDiff := Arr [Str ''updatedAt'']\<rparr>))"

definition put_user_streamed_reply :: request where
  "put_user_streamed_reply = user_request ''put'' (Obj [(''name'', Str ''B'')]) (Stream 2) 200 None"

definition get_user :: request where
  "get_user = user_request ''get'' Undefined (Obj [(''name'', Str ''A'')]) 200 None"

definition put_stream :: request where
  "put_stream = user_request ''put'' (Stream 1) (Stream 2) 200 None"

section \<open>Invariants of the pre-state cache\<close>

text \<open>
  What every phase and every tick of the timer keeps: the trace only grows, and the
  cache entry of a key is gone, or as it was, or was set by a \<open>CacheSet\<close> of the run.
\<close>

definition cache_frame :: "state \<Rightarrow> state \<Rightarrow> bool" where
  "cache_frame s s' \<longleftrightarrow>
     prefix (trace s) (trace s')
     \<and> (\<forall>k. oldValsCache s' k = None \<or> oldValsCache s' k = oldValsCache s k
            \<or> (\<exists>v. CacheSet k v \<in> set (events_since s s')))"

text \<open>An event that leaves the cache alone: no put, and a get only when it misses.\<close>

fun quiet :: "event \<Rightarrow> bool" where
  "quiet (CacheSet k v) = False"
| "quiet (CacheGet k v) = (v = Undefined)"
| "quiet ev = True"

definition cache_idle :: "state \<Rightarrow> state \<Rightarrow> bool" where
  "cache_idle s s' \<longleftrightarrow>
     oldValsCache s' = Map.empty \<and> prefix (trace s) (trace s')
     \<and> list_all quiet (events_since s s')"

text \<open>The pre-handler phase of an UPDATE whose body is a stream.\<close>

fun streams_update :: "utils \<Rightarrow> step \<Rightarrow> bool" where
  "streams_update U (PreHandler H req) = (isUpdate U (method req) \<and> isStream U (payload req))"
| "streams_update U st = False"

lemmas letter_defs = toLowerCase_def toUpperCase_def upper_letters_def lower_letters_def

lemmas enum_defs = MUTATION_UPDATE_def MUTATION_CREATE_def MUTATION_DELETE_def
  EVENT_TYPE_MUTATION_def AUDIT_TYPE_SEARCH_def AUDIT_OUTCOME_SUCCESS_def
  ID_PARAM_DEFAULT_def plugin_name_def FIVE_MINS_MSECS_def

lemmas record_defs = createMutation_def createAction_def AuditMutation_new_def
  AuditAction_new_def AuditMutationBody_new_def AuditActionBody_new_def default_obj_def
  js_or_def

lemmas effect_defs = emit_event_def cacheGet_def cacheSet_def cacheDelete_def
  fetchValues_def handleError_def emitAuditEvent_def

lemmas handler_defs = onPreHandler_def preHandler_try_def preHandler_update_def
  preHandler_delete_def onPreResponse_def preResponse_try_def preResponse_record_def
  preResponse_override_def read_action_def auditing_of_def no_auditing_def

lemmas demo_defs = utils_spec_def default_settings_def host_up_def host_down_def
  user_request_def parse_demo_def user_text_def initial_def pass_through_def
  put_user_def put_user_failed_def delete_user_def post_approval_def
  cached_user_def cached_stamped_user_def put_stamped_user_def get_user_def put_stream_def
  put_user_streamed_reply_def

section \<open>The record builder\<close>

text \<open>
  C9. A Mutation record built with no action takes its action from the HTTP verb:
  UPDATE for PUT, CREATE for POST, DELETE for DELETE, in whatever case the verb is
  written. Built with an action, it carries that action.
\<close>

theorem mutation_action_from_verb:
  "(\<not> truthy a \<and> toLowerCase m = ''put''
      \<longrightarrow> body_action (AuditMutation_new m a e i u out app ov nv t) = Str ''UPDATE'')
   \<and> (\<not> truthy a \<and> toLowerCase m = ''post''
      \<longrightarrow> body_action (AuditMutation_new m a e i u out app ov nv t) = Str ''CREATE'')
   \<and> (\<not> truthy a \<and> toLowerCase m = ''delete''
      \<longrightarrow> body_action (AuditMutation_new m a e i u out app ov nv t) = Str ''DELETE'')
   \<and> (truthy a \<longrightarrow> body_action (AuditMutation_new m a e i u out app ov nv t) = a)
   \<and> isMutation (AuditMutation_new m a e i u out app ov nv t)"
  by (simp add: record_defs enum_defs Let_def)

theorem mutation_action_from_verb_witness:
  "body_action (AuditMutation_new ''PUT'' Undefined (Str ''users'') (Str ''42'') (Str ''alice'')
       Undefined (Str ''client-app'') (Obj []) (Obj []) 1000) = Str ''UPDATE''
   \<and> body_action (AuditMutation_new ''post'' Undefined (Str ''users'') (Str ''42'') (Str ''alice'')
       Undefined (Str ''client-app'') (Obj []) (Obj []) 1000) = Str ''CREATE''
   \<and> body_action (AuditMutation_new ''Delete'' (Str []) (Str ''users'') (Str ''42'') (Str ''alice'')
       Undefined (Str ''client-app'') (Obj []) (Obj []) 1000) = Str ''DELETE''
   \<and> body_action (AuditMutation_new ''put'' (Str ''APPROVE'') (Str ''users'') (Str ''42'')
       (Str ''alice'') Undefined (Str ''client-app'') (Obj []) (Obj []) 1000) = Str ''APPROVE''"
  using
    mutation_action_from_verb [of Undefined "''PUT''" "Str ''users''" "Str ''42''" "Str ''alice''"
      Undefined "Str ''client-app''" "Obj []" "Obj []" 1000]
    mutation_action_from_verb [of Undefined "''post''" "Str ''users''" "Str ''42''" "Str ''alice''"
      Undefined "Str ''client-app''" "Obj []" "Obj []" 1000]
    mutation_action_from_verb [of "Str []" "''Delete''" "Str ''users''" "Str ''42''" "Str ''alice''"
      Undefined "Str ''client-app''" "Obj []" "Obj []" 1000]
    mutation_action_from_verb [of "Str ''APPROVE''" "''put''" "Str ''users''" "Str ''42''"
      "Str ''alice''" Undefined "Str ''client-app''" "Obj []" "Obj []" 1000]
  by (simp add: letter_defs)

section \<open>The classifier\<close>

text \<open>
  C8. A request of any verb on a route whose auditing is disabled, or with no user
  logged in, or that \<open>isAuditable\<close> refuses, passes both phases with the state as it
  was: nothing is fetched, stored or emitted.
\<close>

theorem skipped_request_emits_nothing:
  assumes "isDisabled U (auditing_of req)
           \<or> \<not> isLoggedIn U (getUser U req (sidUsernameAttribute C))
           \<or> \<not> isAuditable C (pathname req) (method req)"
  shows "onPreHandler U C H req s = (Continue, s)
         \<and> onPreResponse U C H' req s = (Continue, s)
         \<and> emitted (trace (run U C [PreHandler H req, PreResponse H' req] s)) = emitted (trace s)"
proof -
  have pre: "onPreHandler U C H req s = (Continue, s)"
    using assms by (auto simp: onPreHandler_def preHandler_try_def Let_def)
  have post: "onPreResponse U C H' req s = (Continue, s)"
    using assms by (auto simp: onPreResponse_def preResponse_try_def Let_def)
  show ?thesis by (simp add: pre post)
qed

theorem skipped_request_emits_nothing_witness:
  "emitted (trace (run utils_spec default_settings
       [PreHandler host_up (user_request ''delete'' Undefined Null 204
          (Some (no_auditing\<lparr>rt_disabled := Bool True\<rparr>))),
        PreResponse host_up (user_request ''delete'' Undefined Null 204
          (Some (no_auditing\<lparr>rt_disabled := Bool True\<rparr>)))] initial)) = []
   \<and> onPreHandler utils_spec default_settings host_up
        (user_request ''delete'' Undefined Null 204
          (Some (no_auditing\<lparr>rt_disabled := Bool True\<rparr>))) initial = (Continue, initial)
   \<and> onPreResponse utils_spec default_settings host_up
        ((user_request ''put'' (Obj [(''name'', Str ''B'')]) Null 204 None)\<lparr>auth := Obj []\<rparr>)
        initial = (Continue, initial)
   \<and> onPreResponse utils_spec default_settings host_up
        ((user_request ''get'' Undefined (Obj []) 200 None)\<lparr>pathname := ''/health''\<rparr>)
        initial = (Continue, initial)"
  using
    skipped_request_emits_nothing [of utils_spec
      "user_request ''delete'' Undefined Null 204 (Some (no_auditing\<lparr>rt_disabled := Bool True\<rparr>))"
      default_settings host_up initial host_up]
    skipped_request_emits_nothing [of utils_spec
      "(user_request ''put'' (Obj [(''name'', Str ''B'')]) Null 204 None)\<lparr>auth := Obj []\<rparr>"
      default_settings host_up initial host_up]
    skipped_request_emits_nothing [of utils_spec
      "(user_request ''get'' Undefined (Obj []) 200 None)\<lparr>pathname := ''/health''\<rparr>"
      default_settings host_up initial host_up]
  by (simp add: demo_defs auditing_of_def no_auditing_def)

section \<open>Registration of the event handler\<close>

lemma register_listeners:
  "register validateSchema opts = Inr P \<Longrightarrow>
     listeners P = [(emitEventName (settings P), eventHanler (read_options opts))]"
  by (cases "validateSchema opts") (auto simp: register_def Let_def)

text \<open>
  C5. The subscriber of the audit event is read from the option named
  \<open>eventHanler\<close>. Options that give no such property, whatever else they give (an
  \<open>eventHandler\<close> included), leave the console logger as the one subscriber; a
  function given under \<open>eventHanler\<close> is the one subscriber.
\<close>

theorem subscriber_read_from_eventHanler:
  assumes "register validateSchema opts = Inr P"
  shows "(opts ''eventHanler'' = None
            \<longrightarrow> subscribers P (emitEventName (settings P)) = [ConsoleLogger])
         \<and> (\<forall>f. opts ''eventHanler'' = Some (OFun f)
            \<longrightarrow> subscribers P (emitEventName (settings P)) = [f])"
  by (simp add: register_listeners [OF assms] subscribers_def read_options_def)

theorem subscriber_read_from_eventHanler_witness:
  "register (\<lambda>opts. None) [''eventHandler'' \<mapsto> OFun (Supplied 1)]
     = Inr \<lparr>settings = default_settings, server_events = [''auditing''],
            listeners = [(''auditing'', ConsoleLogger)], interval = 300000, stores = initial\<rparr>
   \<and> subscribers \<lparr>settings = default_settings, server_events = [''auditing''],
            listeners = [(''auditing'', ConsoleLogger)], interval = 300000, stores = initial\<rparr>
         ''auditing'' = [ConsoleLogger]"
proof -
  have r: "register (\<lambda>opts. None) [''eventHandler'' \<mapsto> OFun (Supplied 1)]
     = Inr \<lparr>settings = default_settings, server_events = [''auditing''],
            listeners = [(''auditing'', ConsoleLogger)], interval = 300000, stores = initial\<rparr>"
    by (simp add: register_def read_options_def default_settings_def enum_defs)
  show ?thesis
    using subscriber_read_from_eventHanler [OF r] r
    by (simp add: default_settings_def)
qed

section \<open>Errors of the audit logic\<close>

lemma handleError_trace:
  "trace (handleError C e s) =
     trace s @ (if showErrorsOnStdErr C
                then [ConsoleError (''['' @ plugin_name @ ''] =======> ERROR: '' @ message e)]
                else []) @ [RequestLog (message e)]"
  by (simp add: handleError_def emit_event_def Let_def)

lemma handleError_stores:
  "oldValsCache (handleError C e s) = oldValsCache s
   \<and> auditValues (handleError C e s) = auditValues s"
  by (simp add: handleError_def emit_event_def Let_def)

lemma emitted_append: "emitted (xs @ ys) = emitted xs @ emitted ys"
  by (induction xs rule: emitted.induct) simp_all

lemma handleError_emitted: "emitted (trace (handleError C e s)) = emitted (trace s)"
  by (simp add: handleError_trace emitted_append)

lemma handleError_last: "last (trace (handleError C e s)) = RequestLog (message e)"
  by (simp add: handleError_trace)

text \<open>
  C6. Both extension handlers return \<open>h.continue\<close> on every request and in every
  state. Whatever error the audit logic of a phase throws is caught there and handed
  to \<open>handleError\<close>, which logs its message on the request (the last event of the
  phase), leaves both stores as they were at the throw, and emits nothing.
\<close>

theorem audit_errors_are_caught:
  "fst (onPreHandler U C H req s) = Continue
   \<and> fst (onPreResponse U C H req s) = Continue
   \<and> (\<forall>e s'. preHandler_try U C H req s = (Some e, s')
        \<longrightarrow> snd (onPreHandler U C H req s) = handleError C e s')
   \<and> (\<forall>e s'. preResponse_try U C H req s = (Some e, s')
        \<longrightarrow> snd (onPreResponse U C H req s) = handleError C e s')
   \<and> (\<forall>e s'. last (trace (handleError C e s')) = RequestLog (message e)
        \<and> oldValsCache (handleError C e s') = oldValsCache s'
        \<and> auditValues (handleError C e s') = auditValues s'
        \<and> emitted (trace (handleError C e s')) = emitted (trace s'))"
  by (simp add: onPreHandler_def onPreResponse_def handleError_last handleError_stores
        handleError_emitted split: prod.split option.split)

theorem audit_errors_are_caught_witness:
  "preHandler_try utils_spec default_settings host_down put_user initial =
     (Some (Error ''socket hang up''),
      emit_event (Inject ''/api/users/42'')
        (emit_event (CacheGet ''get:/api/users/42'' Undefined) initial))
   \<and> onPreHandler utils_spec default_settings host_down put_user initial =
     (Continue,
      handleError default_settings (Error ''socket hang up'')
        (emit_event (Inject ''/api/users/42'')
           (emit_event (CacheGet ''get:/api/users/42'' Undefined) initial)))
   \<and> preResponse_try utils_spec default_settings host_up put_user_failed initial =
     (Some (Error ''Cannot audit null audit record for endpoint: put:/api/users/42''), initial)
   \<and> onPreResponse utils_spec default_settings host_up put_user_failed initial =
     (Continue,
      handleError default_settings
        (Error ''Cannot audit null audit record for endpoint: put:/api/users/42'') initial)"
proof -
  have pre: "preHandler_try utils_spec default_settings host_down put_user initial =
     (Some (Error ''socket hang up''),
      emit_event (Inject ''/api/users/42'')
        (emit_event (CacheGet ''get:/api/users/42'' Undefined) initial))"
    by (simp add: handler_defs demo_defs effect_defs enum_defs letter_defs Let_def)
  have post: "preResponse_try utils_spec default_settings host_up put_user_failed initial =
     (Some (Error ''Cannot audit null audit record for endpoint: put:/api/users/42''), initial)"
    by (simp add: handler_defs demo_defs effect_defs enum_defs letter_defs Let_def)
  show ?thesis
    using audit_errors_are_caught [of utils_spec default_settings host_down put_user initial]
      audit_errors_are_caught [of utils_spec default_settings host_up put_user_failed initial]
      pre post
    by (metis prod.collapse)
qed

section \<open>A response that is not successful\<close>

text \<open>
  C10. On a request that passes the classifier and that \<open>shouldAuditRequest\<close> lets
  through, a response that is not successful leaves the pre-response phase with no
  record: the phase throws the null-record error, which is logged; nothing is
  emitted, and the pending record that the pre-handler stored for the UPDATE or
  DELETE stays in \<open>auditValues\<close> under its key.
\<close>

theorem failed_response_keeps_pending_record:
  assumes "\<not> isDisabled U (auditing_of req)"
    and "isLoggedIn U (getUser U req (sidUsernameAttribute C))"
    and "isAuditable C (pathname req) (method req)"
    and "isUpdate U (method req) \<or> isDelete U (method req)"
    and "\<not> isSuccessfulResponse U (response_statusCode req)"
    and "shouldAuditRequest U (method req) (auditGetRequests C) (lookup (headers req) ''injected'')"
    and "auditValues s (toEndpoint U (method req) (pathname req) Undefined) = Some r"
  shows "snd (onPreResponse U C H req s) =
           handleError C (Error (''Cannot audit null audit record for endpoint: ''
                                   @ toEndpoint U (method req) (pathname req) Undefined)) s
         \<and> emitted (trace (snd (onPreResponse U C H req s))) = emitted (trace s)
         \<and> last (trace (snd (onPreResponse U C H req s))) =
             RequestLog (''Cannot audit null audit record for endpoint: ''
                           @ toEndpoint U (method req) (pathname req) Undefined)
         \<and> auditValues (snd (onPreResponse U C H req s))
              (toEndpoint U (method req) (pathname req) Undefined) = Some r"
proof -
  have ov: "preResponse_override U C H req (auditing_of req)
              (getUser U req (sidUsernameAttribute C)) = Inr None"
    using assms(5) by (simp add: preResponse_override_def Let_def)
  have rc: "preResponse_record U C H req (auditing_of req)
              (getUser U req (sidUsernameAttribute C)) None s = (Inr None, s)"
    using assms(5) by (simp add: preResponse_record_def Let_def)
  have "preResponse_try U C H req s =
          (Some (Error (''Cannot audit null audit record for endpoint: ''
                          @ toEndpoint U (method req) (pathname req) Undefined)), s)"
    using assms(1,2,3,6) by (simp add: preResponse_try_def Let_def ov rc emitAuditEvent_def)
  then have "snd (onPreResponse U C H req s) =
           handleError C (Error (''Cannot audit null audit record for endpoint: ''
                                   @ toEndpoint U (method req) (pathname req) Undefined)) s"
    by (simp add: onPreResponse_def)
  then show ?thesis
    using assms(7) by (simp add: handleError_last handleError_stores handleError_emitted)
qed

theorem failed_response_keeps_pending_record_witness:
  "auditValues (run utils_spec default_settings [PreHandler host_up put_user_failed] initial)
       ''put:/api/users/42'' =
     Some (AuditMutation (Str ''client-app'') (Str ''MUTATION'')
             \<lparr>entity = Str ''users'', entityId = Str ''42'', action = Str ''UPDATE'',
              username = Str ''alice'', timestamp = 1000,
              originalValues = Obj [], newValues = Obj []\<rparr> (Str ''SUCCESS''))
   \<and> auditValues (run utils_spec default_settings
         [PreHandler host_up put_user_failed, PreResponse host_up put_user_failed] initial)
       ''put:/api/users/42'' =
     Some (AuditMutation (Str ''client-app'') (Str ''MUTATION'')
             \<lparr>entity = Str ''users'', entityId = Str ''42'', action = Str ''UPDATE'',
              username = Str ''alice'', timestamp = 1000,
              originalValues = Obj [], newValues = Obj []\<rparr> (Str ''SUCCESS''))
   \<and> emitted (trace (run utils_spec default_settings
         [PreHandler host_up put_user_failed, PreResponse host_up put_user_failed] initial)) = []
   \<and> last (trace (run utils_spec default_settings
         [PreHandler host_up put_user_failed, PreResponse host_up put_user_failed] initial)) =
       RequestLog ''Cannot audit null audit record for endpoint: put:/api/users/42''"
proof -
  let ?s1 = "snd (onPreHandler utils_spec default_settings host_up put_user_failed initial)"
  let ?r = "AuditMutation (Str ''client-app'') (Str ''MUTATION'')
             \<lparr>entity = Str ''users'', entityId = Str ''42'', action = Str ''UPDATE'',
              username = Str ''alice'', timestamp = 1000,
              originalValues = Obj [], newValues = Obj []\<rparr> (Str ''SUCCESS'')"
  have k: "toEndpoint utils_spec (method put_user_failed) (pathname put_user_failed) Undefined
             = ''put:/api/users/42''"
    by (simp add: demo_defs)
  have stored: "auditValues ?s1 ''put:/api/users/42'' = Some ?r"
    by (simp add: handler_defs demo_defs effect_defs enum_defs letter_defs record_defs Let_def)
  have em: "emitted (trace ?s1) = []"
    by (simp add: handler_defs demo_defs effect_defs enum_defs letter_defs record_defs Let_def)
  have h1: "\<not> isDisabled utils_spec (auditing_of put_user_failed)"
    by (simp add: demo_defs auditing_of_def no_auditing_def)
  have h2: "isLoggedIn utils_spec
              (getUser utils_spec put_user_failed (sidUsernameAttribute default_settings))"
    by (simp add: demo_defs)
  have h3: "isAuditable default_settings (pathname put_user_failed) (method put_user_failed)"
    by (simp add: demo_defs)
  have h4: "isUpdate utils_spec (method put_user_failed)
            \<or> isDelete utils_spec (method put_user_failed)"
    by (simp add: demo_defs letter_defs)
  have h5: "\<not> isSuccessfulResponse utils_spec (response_statusCode put_user_failed)"
    by (simp add: demo_defs)
  have h6: "shouldAuditRequest utils_spec (method put_user_failed)
              (auditGetRequests default_settings) (lookup (headers put_user_failed) ''injected'')"
    by (simp add: demo_defs letter_defs)
  show ?thesis
    using failed_response_keeps_pending_record [OF h1 h2 h3 h4 h5 h6, of ?s1 ?r host_up]
      stored em k
    by (simp add: handleError_stores handleError_emitted handleError_last)
qed

section \<open>The action override\<close>

lemma emitAuditEvent_Some:
  "emitAuditEvent C (Some r) k s =
     (None, (emit_event (Emit (emitEventName C) r) s)
              \<lparr>auditValues := (auditValues s)(k := None)\<rparr>)"
  by (simp add: emitAuditEvent_def)

lemma emitted_emit:
  "emitted (trace (emit_event (Emit n r) s)) = emitted (trace s) @ [r]"
  by (simp add: emit_event_def emitted_append)

text \<open>
  C1. On a route that declares an action, with the classifier passed, a successful
  response and \<open>shouldAuditRequest\<close> letting the request through, the Action record
  that the override builds is not the record published. The chain of branches on the
  verb runs after the override and assigns \<open>rec\<close> again: a CREATE publishes the
  Mutation record of the CREATE branch, and an UPDATE whose response is not a stream
  takes the pending record, of which there is none (the pre-handler skips a route
  with an action), so that nothing is published and the null-record error is logged.
\<close>

theorem override_record_is_replaced:
  assumes "\<not> isDisabled U (auditing_of req)"
    and "isLoggedIn U (getUser U req (sidUsernameAttribute C))"
    and "isAuditable C (pathname req) (method req)"
    and "truthy (rt_action (auditing_of req))"
    and "isSuccessfulResponse U (response_statusCode req)"
    and "shouldAuditRequest U (method req) (auditGetRequests C) (lookup (headers req) ''injected'')"
    and "\<not> isRead U (method req)"
    and "getProp (payload req)
           (case rt_idParam (auditing_of req) of None \<Rightarrow> ID_PARAM_DEFAULT | Some p \<Rightarrow> p) = Inr pid"
  shows "(isCreate U (method req) \<and> \<not> isUpdate U (method req) \<and> \<not> isDelete U (method req)
          \<and> getProp (if gotResponseData U (response_source req) then response_source req
                      else payload req)
               (case rt_idParam (auditing_of req) of None \<Rightarrow> ID_PARAM_DEFAULT | Some p \<Rightarrow> p)
              = Inr ident
          \<longrightarrow> (\<exists>r. emitted (trace (snd (onPreResponse U C H req s))) = emitted (trace s) @ [r]
                 \<and> isMutation r
                 \<and> body_newValues r =
                     Some (default_obj (if gotResponseData U (response_source req)
                                        then response_source req else payload req))))
         \<and> (isUpdate U (method req) \<and> \<not> isStream U (response_source req)
            \<and> auditValues s (toEndpoint U (method req) (pathname req) Undefined) = None
          \<longrightarrow> emitted (trace (snd (onPreResponse U C H req s))) = emitted (trace s)
              \<and> last (trace (snd (onPreResponse U C H req s))) =
                  RequestLog (''Cannot audit null audit record for endpoint: ''
                                @ toEndpoint U (method req) (pathname req) Undefined))"
proof (intro conjI impI)
  let ?a = "auditing_of req"
  let ?u = "getUser U req (sidUsernameAttribute C)"
  let ?p = "(case rt_idParam ?a of None \<Rightarrow> ID_PARAM_DEFAULT | Some p \<Rightarrow> p)"
  obtain r0 where ov: "preResponse_override U C H req ?a ?u = Inr r0"
    using assms(8) by (cases "preResponse_override U C H req ?a ?u")
      (auto simp: preResponse_override_def Let_def split: if_splits)
  {
    assume c: "isCreate U (method req) \<and> \<not> isUpdate U (method req) \<and> \<not> isDelete U (method req)
          \<and> getProp (if gotResponseData U (response_source req) then response_source req
                      else payload req) ?p = Inr ident"
    let ?d = "(if gotResponseData U (response_source req) then response_source req else payload req)"
    let ?r = "createMutation (method req) (clientId C) (getEntity U (rt_entity ?a) (pathname req))
                (getEntityId U (rt_entityKeys ?a) ident ?d) ?u Undefined ?d (now H)"
    have rc: "preResponse_record U C H req ?a ?u r0 s = (Inr (Some ?r), s)"
      using c assms(5,7) by (cases "gotResponseData U (response_source req)")
        (simp_all add: preResponse_record_def Let_def)
    have "preResponse_try U C H req s =
            (None, (emit_event (Emit (emitEventName C) ?r) s)
               \<lparr>auditValues :=
                  (auditValues s)(toEndpoint U (method req) (pathname req) Undefined := None)\<rparr>)"
      using assms(1,2,3,6) by (simp add: preResponse_try_def Let_def ov rc emitAuditEvent_Some)
    then have "emitted (trace (snd (onPreResponse U C H req s))) = emitted (trace s) @ [?r]"
      by (simp add: onPreResponse_def emitted_emit)
    moreover have "isMutation ?r \<and> body_newValues ?r = Some (default_obj ?d)"
      by (simp add: createMutation_def AuditMutation_new_def AuditMutationBody_new_def
            default_obj_def Let_def)
    ultimately show "\<exists>r. emitted (trace (snd (onPreResponse U C H req s))) = emitted (trace s) @ [r]
                 \<and> isMutation r \<and> body_newValues r = Some (default_obj ?d)"
      by blast
  }
  {
    assume c: "isUpdate U (method req) \<and> \<not> isStream U (response_source req)
            \<and> auditValues s (toEndpoint U (method req) (pathname req) Undefined) = None"
    let ?k = "toEndpoint U (method req) (pathname req) Undefined"
    let ?g = "toEndpoint U ''get'' (pathname req) (rt_getPath ?a)"
    let ?s1 = "snd (cacheGet ?g s)"
    have rc: "preResponse_record U C H req ?a ?u r0 s = (Inr None, ?s1)"
      using c assms(5,7)
      by (simp add: preResponse_record_def Let_def cacheGet_def emit_event_def split: prod.split)
    have "preResponse_try U C H req s =
            (Some (Error (''Cannot audit null audit record for endpoint: '' @ ?k)), ?s1)"
      using assms(1,2,3,6) by (simp add: preResponse_try_def Let_def ov rc emitAuditEvent_def)
    then have e: "snd (onPreResponse U C H req s) =
                 handleError C (Error (''Cannot audit null audit record for endpoint: '' @ ?k)) ?s1"
      by (simp add: onPreResponse_def)
    have "emitted (trace ?s1) = emitted (trace s)"
      by (simp add: cacheGet_def emit_event_def Let_def emitted_append)
    then show "emitted (trace (snd (onPreResponse U C H req s))) = emitted (trace s)"
      by (simp add: e handleError_emitted)
    show "last (trace (snd (onPreResponse U C H req s))) =
                  RequestLog (''Cannot audit null audit record for endpoint: '' @ ?k)"
      by (simp add: e handleError_last)
  }
qed

theorem override_record_is_replaced_witness:
  "truthy (rt_action (auditing_of post_approval))
   \<and> emitted (trace (snd (onPreResponse utils_spec default_settings host_up post_approval initial)))
     = [AuditMutation (Str ''client-app'') (Str ''MUTATION'')
          \<lparr>entity = Str ''users'', entityId = Num 42, action = Str ''CREATE'',
           username = Str ''alice'', timestamp = 1000, originalValues = Obj [],
           newValues = Obj [(''id'', Num 42), (''name'', Str ''A'')]\<rparr> (Str ''SUCCESS'')]
   \<and> (\<exists>r. emitted (trace (snd (onPreResponse utils_spec default_settings host_up
                                 post_approval initial))) = [r]
          \<and> isMutation r)"
proof -
  have h1: "\<not> isDisabled utils_spec (auditing_of post_approval)"
    by (simp add: demo_defs auditing_of_def no_auditing_def)
  have h2: "isLoggedIn utils_spec
              (getUser utils_spec post_approval (sidUsernameAttribute default_settings))"
    by (simp add: demo_defs)
  have h3: "isAuditable default_settings (pathname post_approval) (method post_approval)"
    by (simp add: demo_defs)
  have h4: "truthy (rt_action (auditing_of post_approval))"
    by (simp add: demo_defs auditing_of_def no_auditing_def)
  have h5: "isSuccessfulResponse utils_spec (response_statusCode post_approval)"
    by (simp add: demo_defs)
  have h6: "shouldAuditRequest utils_spec (method post_approval)
              (auditGetRequests default_settings) (lookup (headers post_approval) ''injected'')"
    by (simp add: demo_defs letter_defs)
  have h7: "\<not> isRead utils_spec (method post_approval)"
    by (simp add: demo_defs letter_defs)
  have h8: "getProp (payload post_approval)
              (case rt_idParam (auditing_of post_approval) of
                 None \<Rightarrow> ID_PARAM_DEFAULT | Some p \<Rightarrow> p) = Inr (Num 42)"
    by (simp add: demo_defs auditing_of_def no_auditing_def enum_defs)
  have c: "isCreate utils_spec (method post_approval)
           \<and> \<not> isUpdate utils_spec (method post_approval)
           \<and> \<not> isDelete utils_spec (method post_approval)
           \<and> getProp (if gotResponseData utils_spec (response_source post_approval)
                       then response_source post_approval else payload post_approval)
                (case rt_idParam (auditing_of post_approval) of
                   None \<Rightarrow> ID_PARAM_DEFAULT | Some p \<Rightarrow> p) = Inr (Num 42)"
    by (simp add: demo_defs auditing_of_def no_auditing_def enum_defs letter_defs)
  have ev: "emitted (trace (snd (onPreResponse utils_spec default_settings host_up
                                   post_approval initial)))
     = [AuditMutation (Str ''client-app'') (Str ''MUTATION'')
          \<lparr>entity = Str ''users'', entityId = Num 42, action = Str ''CREATE'',
           username = Str ''alice'', timestamp = 1000, originalValues = Obj [],
           newValues = Obj [(''id'', Num 42), (''name'', Str ''A'')]\<rparr> (Str ''SUCCESS'')]"
    by (simp add: handler_defs demo_defs effect_defs enum_defs letter_defs record_defs Let_def)
  have "\<exists>r. emitted (trace (snd (onPreResponse utils_spec default_settings host_up
                                 post_approval initial))) = emitted (trace initial) @ [r]
          \<and> isMutation r"
    using override_record_is_replaced [OF h1 h2 h3 h4 h5 h6 h7 h8,
        of "Num 42" host_up initial] c
    by blast
  then show ?thesis
    using h4 ev by (simp add: initial_def)
qed

section \<open>Deletions\<close>

text \<open>
  C4. A DELETE that passes the classifier on a route with no action, whose internal
  read answers and whose response is successful, publishes one Mutation record. Its
  \<open>originalValues\<close> is the payload text of the internal read as a string: the DELETE
  branch does not pass it through \<open>JSON.parse\<close>, as the UPDATE branch does. Its
  \<open>newValues\<close> is the empty object that the constructor defaults to.
\<close>

theorem delete_record_keeps_fetched_text:
  assumes "\<not> isDisabled U (auditing_of req)"
    and "isLoggedIn U (getUser U req (sidUsernameAttribute C))"
    and "isAuditable C (pathname req) (method req)"
    and "\<not> truthy (rt_action (auditing_of req))"
    and "isDelete U (method req)"
    and "\<not> isUpdate U (method req)"
    and "\<not> isRead U (method req)"
    and "isSuccessfulResponse U (response_statusCode req)"
    and "shouldAuditRequest U (method req) (auditGetRequests C) (lookup (headers req) ''injected'')"
    and "server_inject H req = Inr fetched"
  shows "\<exists>r. emitted (trace (run U C [PreHandler H req, PreResponse H' req] s))
               = emitted (trace s) @ [r]
             \<and> isMutation r
             \<and> body_originalValues r = Some (Str fetched)
             \<and> body_newValues r = Some (Obj [])"
proof -
  let ?a = "auditing_of req"
  let ?u = "getUser U req (sidUsernameAttribute C)"
  let ?p = "(case rt_idParam ?a of None \<Rightarrow> ID_PARAM_DEFAULT | Some p \<Rightarrow> p)"
  let ?k = "toEndpoint U (method req) (pathname req) Undefined"
  let ?r = "createMutation (method req) (clientId C) (getEntity U (rt_entity ?a) (pathname req))
              (getEntityId U (rt_entityKeys ?a) (lookup (params req) ?p) (Str fetched))
              ?u (Str fetched) Undefined (now H)"
  let ?s0 = "emit_event (Inject (pathname req)) s"
  let ?s1 = "?s0\<lparr>auditValues := (auditValues ?s0)(?k \<mapsto> ?r)\<rparr>"
  have "preHandler_delete U C H req ?a ?u s = (None, ?s1)"
    using assms(10) by (simp add: preHandler_delete_def fetchValues_def Let_def)
  then have "preHandler_try U C H req s = (None, ?s1)"
    using assms(1-6) by (simp add: preHandler_try_def Let_def)
  then have pre: "snd (onPreHandler U C H req s) = ?s1"
    by (simp add: onPreHandler_def)
  have ov: "preResponse_override U C H' req ?a ?u = Inr None"
    using assms(4) by (simp add: preResponse_override_def Let_def)
  have rc: "preResponse_record U C H' req ?a ?u None ?s1 = (Inr (Some ?r), ?s1)"
    using assms(5-8) by (simp add: preResponse_record_def Let_def)
  have "preResponse_try U C H' req ?s1 =
          (None, (emit_event (Emit (emitEventName C) ?r) ?s1)
                   \<lparr>auditValues := (auditValues ?s1)(?k := None)\<rparr>)"
    using assms(1,2,3,9) by (simp add: preResponse_try_def Let_def ov rc emitAuditEvent_Some)
  then have "emitted (trace (snd (onPreResponse U C H' req ?s1))) = emitted (trace ?s1) @ [?r]"
    by (simp add: onPreResponse_def emitted_emit)
  moreover have "emitted (trace ?s1) = emitted (trace s)"
    by (simp add: emit_event_def emitted_append)
  ultimately have "emitted (trace (run U C [PreHandler H req, PreResponse H' req] s))
               = emitted (trace s) @ [?r]"
    by (simp add: pre)
  moreover have "isMutation ?r \<and> body_originalValues ?r = Some (Str fetched)
                 \<and> body_newValues ?r = Some (Obj [])"
    by (simp add: createMutation_def AuditMutation_new_def AuditMutationBody_new_def
          default_obj_def Let_def)
  ultimately show ?thesis by blast
qed

theorem delete_record_keeps_fetched_text_witness:
  "JSON_parse host_up user_text = Inr (Obj [(''name'', Str ''A'')])
   \<and> emitted (trace (run utils_spec default_settings
        [PreHandler host_up delete_user, PreResponse host_up delete_user] initial))
     = [AuditMutation (Str ''client-app'') (Str ''MUTATION'')
          \<lparr>entity = Str ''users'', entityId = Str ''42'', action = Str ''DELETE'',
           username = Str ''alice'', timestamp = 1000, originalValues = Str user_text,
           newValues = Obj []\<rparr> (Str ''SUCCESS'')]
   \<and> (\<exists>r. emitted (trace (run utils_spec default_settings
              [PreHandler host_up delete_user, PreResponse host_up delete_user] initial)) = [r]
          \<and> body_originalValues r = Some (Str user_text)
          \<and> body_originalValues r \<noteq> Some (Obj [(''name'', Str ''A'')]))"
proof -
  have h1: "\<not> isDisabled utils_spec (auditing_of delete_user)"
    by (simp add: demo_defs auditing_of_def no_auditing_def)
  have h2: "isLoggedIn utils_spec
              (getUser utils_spec delete_user (sidUsernameAttribute default_settings))"
    by (simp add: demo_defs)
  have h3: "isAuditable default_settings (pathname delete_user) (method delete_user)"
    by (simp add: demo_defs)
  have h4: "\<not> truthy (rt_action (auditing_of delete_user))"
    by (simp add: demo_defs auditing_of_def no_auditing_def)
  have h5: "isDelete utils_spec (method delete_user)"
    by (simp add: demo_defs letter_defs)
  have h6: "\<not> isUpdate utils_spec (method delete_user)"
    by (simp add: demo_defs letter_defs)
  have h7: "\<not> isRead utils_spec (method delete_user)"
    by (simp add: demo_defs letter_defs)
  have h8: "isSuccessfulResponse utils_spec (response_statusCode delete_user)"
    by (simp add: demo_defs)
  have h9: "shouldAuditRequest utils_spec (method delete_user)
              (auditGetRequests default_settings) (lookup (headers delete_user) ''injected'')"
    by (simp add: demo_defs letter_defs)
  have h10: "server_inject host_up delete_user = Inr user_text"
    by (simp add: host_up_def)
  have p: "JSON_parse host_up user_text = Inr (Obj [(''name'', Str ''A'')])"
    by (simp add: host_up_def parse_demo_def)
  have ev: "emitted (trace (run utils_spec default_settings
        [PreHandler host_up delete_user, PreResponse host_up delete_user] initial))
     = [AuditMutation (Str ''client-app'') (Str ''MUTATION'')
          \<lparr>entity = Str ''users'', entityId = Str ''42'', action = Str ''DELETE'',
           username = Str ''alice'', timestamp = 1000, originalValues = Str user_text,
           newValues = Obj []\<rparr> (Str ''SUCCESS'')]"
    by (simp add: handler_defs utils_spec_def default_settings_def host_up_def
          user_request_def delete_user_def initial_def effect_defs enum_defs letter_defs
          record_defs Let_def)
  have "\<exists>r. emitted (trace (run utils_spec default_settings
              [PreHandler host_up delete_user, PreResponse host_up delete_user] initial))
              = emitted (trace initial) @ [r]
          \<and> isMutation r
          \<and> body_originalValues r = Some (Str user_text)
          \<and> body_newValues r = Some (Obj [])"
    using delete_record_keeps_fetched_text [OF h1 h2 h3 h4 h5 h6 h7 h8 h9 h10] .
  then show ?thesis
    using p ev by (auto simp: initial_def)
qed

section \<open>Updates\<close>

lemma emitted_cacheGet: "emitted (trace (snd (cacheGet k s))) = emitted (trace s)"
  by (simp add: cacheGet_def emit_event_def Let_def emitted_append)

lemma pending_is_published:
  assumes "\<not> isDisabled U (auditing_of req)"
    and "isLoggedIn U (getUser U req (sidUsernameAttribute C))"
    and "isAuditable C (pathname req) (method req)"
    and "\<not> truthy (rt_action (auditing_of req))"
    and "isUpdate U (method req)"
    and "\<not> isRead U (method req)"
    and "\<not> isStream U (response_source req)"
    and "isSuccessfulResponse U (response_statusCode req)"
    and "shouldAuditRequest U (method req) (auditGetRequests C) (lookup (headers req) ''injected'')"
    and "auditValues s (toEndpoint U (method req) (pathname req) Undefined) = Some r"
  shows "emitted (trace (snd (onPreResponse U C H req s))) = emitted (trace s) @ [r]"
proof -
  let ?a = "auditing_of req"
  let ?u = "getUser U req (sidUsernameAttribute C)"
  let ?k = "toEndpoint U (method req) (pathname req) Undefined"
  let ?g = "toEndpoint U ''get'' (pathname req) (rt_getPath ?a)"
  let ?s1 = "snd (cacheGet ?g s)"
  have av: "auditValues ?s1 = auditValues s"
    by (simp add: cacheGet_def emit_event_def Let_def)
  have ov: "preResponse_override U C H req ?a ?u = Inr None"
    using assms(4) by (simp add: preResponse_override_def Let_def)
  have rc: "preResponse_record U C H req ?a ?u None s = (Inr (Some r), ?s1)"
    using assms(5-8,10)
    by (simp add: preResponse_record_def Let_def cacheGet_def emit_event_def split: prod.split)
  have "preResponse_try U C H req s =
          (None, (emit_event (Emit (emitEventName C) r) ?s1)
                   \<lparr>auditValues := (auditValues ?s1)(?k := None)\<rparr>)"
    using assms(1,2,3,9) by (simp add: preResponse_try_def Let_def ov rc emitAuditEvent_Some)
  then show ?thesis
    by (simp add: onPreResponse_def emitted_emit emitted_cacheGet)
qed

lemma update_stores_pending:
  assumes "\<not> isDisabled U (auditing_of req)"
    and "isLoggedIn U (getUser U req (sidUsernameAttribute C))"
    and "isAuditable C (pathname req) (method req)"
    and "\<not> truthy (rt_action (auditing_of req))"
    and "isUpdate U (method req)"
    and "\<not> isStream U (payload req)"
    and "(\<not> disableCache C
            \<and> oldValsCache s (toEndpoint U ''get'' (pathname req) (rt_getPath (auditing_of req)))
                = Some b
            \<and> \<not> nullish b)
          \<or> ((disableCache C
               \<or> oldValsCache s (toEndpoint U ''get'' (pathname req) (rt_getPath (auditing_of req)))
                   = None)
              \<and> server_inject H req = Inr fetched \<and> JSON_parse H fetched = Inr b \<and> b \<noteq> Null)"
    and "removeProps U b (clone U (payload req))
           (if rt_skipDiff (auditing_of req) = Undefined then Arr []
            else rt_skipDiff (auditing_of req)) = Inr (b', p')"
  shows "auditValues (snd (onPreHandler U C H req s))
           (toEndpoint U (method req) (pathname req) Undefined) =
         Some (createMutation (method req) (clientId C)
                 (getEntity U (rt_entity (auditing_of req)) (pathname req))
                 (getEntityId U (rt_entityKeys (auditing_of req))
                    (lookup (params req)
                       (case rt_idParam (auditing_of req) of
                          None \<Rightarrow> ID_PARAM_DEFAULT | Some p \<Rightarrow> p)) p')
                 (getUser U req (sidUsernameAttribute C))
                 (fst (diffFunc C b' p')) (snd (diffFunc C b' p')) (now H))
         \<and> emitted (trace (snd (onPreHandler U C H req s))) = emitted (trace s)"
proof -
  let ?a = "auditing_of req"
  let ?u = "getUser U req (sidUsernameAttribute C)"
  have t: "preHandler_try U C H req s = preHandler_update U C H req ?a ?u s"
    using assms(1-5) by (simp add: preHandler_try_def Let_def)
  have n: "b \<noteq> Null"
    using assms(7) by auto
  from assms(7) show ?thesis
  proof
    assume "\<not> disableCache C
            \<and> oldValsCache s (toEndpoint U ''get'' (pathname req) (rt_getPath ?a)) = Some b
            \<and> \<not> nullish b"
    then show ?thesis
      using assms(6,8) n
      by (simp add: onPreHandler_def t preHandler_update_def Let_def cacheGet_def cacheDelete_def
            emit_event_def emitted_append case_prod_beta)
  next
    assume f: "(disableCache C
               \<or> oldValsCache s (toEndpoint U ''get'' (pathname req) (rt_getPath ?a)) = None)
              \<and> server_inject H req = Inr fetched \<and> JSON_parse H fetched = Inr b \<and> b \<noteq> Null"
    show ?thesis
    proof (cases "disableCache C")
      case True
      then show ?thesis
        using assms(6,8) f
        by (simp add: onPreHandler_def t preHandler_update_def Let_def fetchValues_def
              emit_event_def emitted_append case_prod_beta)
    next
      case False
      then show ?thesis
        using assms(6,8) f
        by (simp add: onPreHandler_def t preHandler_update_def Let_def fetchValues_def
              cacheGet_def emit_event_def emitted_append case_prod_beta)
    qed
  qed
qed


text \<open>
  C2, in the form that holds. An UPDATE that passes the classifier on a route with no action, with
  a request body and a response that are not streams, a baseline at hand (a cached
  value that is not null, or else an internal read whose payload parses to a value
  other than null), \<open>removeProps\<close> returning, a successful response and
  \<open>shouldAuditRequest\<close> letting it through, publishes exactly one record over its two
  phases. It is a Mutation record whose \<open>originalValues\<close> and \<open>newValues\<close> are the
  two values that the configured \<open>diffFunc\<close> returns for the baseline and the payload
  with the skip-listed fields removed: these two themselves under a pass-through
  \<open>diffFunc\<close>, two empty objects under the default one.
\<close>

theorem update_record_carries_diff_result:
  assumes "\<not> isDisabled U (auditing_of req)"
    and "isLoggedIn U (getUser U req (sidUsernameAttribute C))"
    and "isAuditable C (pathname req) (method req)"
    and "\<not> truthy (rt_action (auditing_of req))"
    and "isUpdate U (method req)"
    and "\<not> isRead U (method req)"
    and "\<not> isStream U (payload req)"
    and "\<not> isStream U (response_source req)"
    and "isSuccessfulResponse U (response_statusCode req)"
    and "shouldAuditRequest U (method req) (auditGetRequests C) (lookup (headers req) ''injected'')"
    and "(\<not> disableCache C
            \<and> oldValsCache s (toEndpoint U ''get'' (pathname req) (rt_getPath (auditing_of req)))
                = Some b
            \<and> \<not> nullish b)
          \<or> ((disableCache C
               \<or> oldValsCache s (toEndpoint U ''get'' (pathname req) (rt_getPath (auditing_of req)))
                   = None)
              \<and> server_inject H req = Inr fetched \<and> JSON_parse H fetched = Inr b \<and> b \<noteq> Null)"
    and "removeProps U b (clone U (payload req))
           (if rt_skipDiff (auditing_of req) = Undefined then Arr []
            else rt_skipDiff (auditing_of req)) = Inr (b', p')"
  shows "\<exists>r. emitted (trace (run U C [PreHandler H req, PreResponse H' req] s))
               = emitted (trace s) @ [r]
             \<and> isMutation r
             \<and> body_originalValues r = Some (default_obj (fst (diffFunc C b' p')))
             \<and> body_newValues r = Some (default_obj (snd (diffFunc C b' p')))"
proof -
  let ?r = "createMutation (method req) (clientId C)
                 (getEntity U (rt_entity (auditing_of req)) (pathname req))
                 (getEntityId U (rt_entityKeys (auditing_of req))
                    (lookup (params req)
                       (case rt_idParam (auditing_of req) of
                          None \<Rightarrow> ID_PARAM_DEFAULT | Some p \<Rightarrow> p)) p')
                 (getUser U req (sidUsernameAttribute C))
                 (fst (diffFunc C b' p')) (snd (diffFunc C b' p')) (now H)"
  let ?s1 = "snd (onPreHandler U C H req s)"
  have pre: "auditValues ?s1 (toEndpoint U (method req) (pathname req) Undefined) = Some ?r
             \<and> emitted (trace ?s1) = emitted (trace s)"
    using update_stores_pending [OF assms(1-5) assms(7) assms(11) assms(12)] .
  have "emitted (trace (snd (onPreResponse U C H' req ?s1))) = emitted (trace ?s1) @ [?r]"
    using pending_is_published [OF assms(1-6) assms(8-10)] pre by blast
  then have "emitted (trace (run U C [PreHandler H req, PreResponse H' req] s))
               = emitted (trace s) @ [?r]"
    using pre by simp
  moreover have "isMutation ?r
                 \<and> body_originalValues ?r = Some (default_obj (fst (diffFunc C b' p')))
                 \<and> body_newValues ?r = Some (default_obj (snd (diffFunc C b' p')))"
    by (simp add: createMutation_def AuditMutation_new_def AuditMutationBody_new_def
          default_obj_def Let_def)
  ultimately show ?thesis by blast
qed

theorem update_record_carries_diff_result_witness:
  "emitted (trace (run utils_spec (default_settings\<lparr>diffFunc := pass_through\<rparr>)
       [PreHandler host_up put_stamped_user, PreResponse host_up put_stamped_user]
       cached_stamped_user))
     = [AuditMutation (Str ''client-app'') (Str ''MUTATION'')
          \<lparr>entity = Str ''users'', entityId = Str ''42'', action = Str ''UPDATE'',
           username = Str ''alice'', timestamp = 1000,
           originalValues = Obj [(''name'', Str ''A'')],
           newValues = Obj [(''name'', Str ''B'')]\<rparr> (Str ''SUCCESS'')]
   \<and> (\<exists>r. emitted (trace (run utils_spec (default_settings\<lparr>diffFunc := pass_through\<rparr>)
              [PreHandler host_up put_stamped_user, PreResponse host_up put_stamped_user]
              cached_stamped_user)) = [r]
          \<and> isMutation r
          \<and> body_originalValues r = Some (Obj [(''name'', Str ''A'')])
          \<and> body_newValues r = Some (Obj [(''name'', Str ''B'')]))"
proof -
  let ?C = "default_settings\<lparr>diffFunc := pass_through\<rparr>"
  let ?req = put_stamped_user
  have h1: "\<not> isDisabled utils_spec (auditing_of ?req)"
    by (simp add: demo_defs put_stamped_user_def auditing_of_def no_auditing_def)
  have h2: "isLoggedIn utils_spec (getUser utils_spec ?req (sidUsernameAttribute ?C))"
    by (simp add: demo_defs put_stamped_user_def)
  have h3: "isAuditable ?C (pathname ?req) (method ?req)"
    by (simp add: demo_defs put_stamped_user_def)
  have h4: "\<not> truthy (rt_action (auditing_of ?req))"
    by (simp add: demo_defs put_stamped_user_def auditing_of_def no_auditing_def)
  have h5: "isUpdate utils_spec (method ?req)"
    by (simp add: demo_defs put_stamped_user_def letter_defs)
  have h6: "\<not> isRead utils_spec (method ?req)"
    by (simp add: demo_defs put_stamped_user_def letter_defs)
  have h7: "\<not> isStream utils_spec (payload ?req)"
    by (simp add: demo_defs put_stamped_user_def)
  have h8: "\<not> isStream utils_spec (response_source ?req)"
    by (simp add: demo_defs put_stamped_user_def)
  have h9: "isSuccessfulResponse utils_spec (response_statusCode ?req)"
    by (simp add: demo_defs put_stamped_user_def)
  have h10: "shouldAuditRequest utils_spec (method ?req) (auditGetRequests ?C)
               (lookup (headers ?req) ''injected'')"
    by (simp add: demo_defs put_stamped_user_def letter_defs)
  have h11: "(\<not> disableCache ?C
            \<and> oldValsCache cached_stamped_user
                (toEndpoint utils_spec ''get'' (pathname ?req) (rt_getPath (auditing_of ?req)))
                = Some (Obj [(''name'', Str ''A''), (''updatedAt'', Num 1)])
            \<and> \<not> nullish (Obj [(''name'', Str ''A''), (''updatedAt'', Num 1)]))
          \<or> ((disableCache ?C
               \<or> oldValsCache cached_stamped_user
                   (toEndpoint utils_spec ''get'' (pathname ?req) (rt_getPath (auditing_of ?req)))
                   = None)
              \<and> server_inject host_up ?req = Inr user_text
              \<and> JSON_parse host_up user_text = Inr (Obj [(''name'', Str ''A''), (''updatedAt'', Num 1)])
              \<and> Obj [(''name'', Str ''A''), (''updatedAt'', Num 1)] \<noteq> Null)"
    by (simp add: demo_defs put_stamped_user_def cached_stamped_user_def auditing_of_def
          no_auditing_def)
  have h12: "removeProps utils_spec (Obj [(''name'', Str ''A''), (''updatedAt'', Num 1)])
           (clone utils_spec (payload ?req))
           (if rt_skipDiff (auditing_of ?req) = Undefined then Arr []
            else rt_skipDiff (auditing_of ?req))
           = Inr (Obj [(''name'', Str ''A'')], Obj [(''name'', Str ''B'')])"
    by (simp add: demo_defs put_stamped_user_def auditing_of_def no_auditing_def)
  have ev: "emitted (trace (run utils_spec ?C
       [PreHandler host_up ?req, PreResponse host_up ?req] cached_stamped_user))
     = [AuditMutation (Str ''client-app'') (Str ''MUTATION'')
          \<lparr>entity = Str ''users'', entityId = Str ''42'', action = Str ''UPDATE'',
           username = Str ''alice'', timestamp = 1000,
           originalValues = Obj [(''name'', Str ''A'')],
           newValues = Obj [(''name'', Str ''B'')]\<rparr> (Str ''SUCCESS'')]"
    by (simp add: handler_defs demo_defs put_stamped_user_def cached_stamped_user_def
          effect_defs enum_defs letter_defs record_defs Let_def)
  have "\<exists>r. emitted (trace (run utils_spec ?C
              [PreHandler host_up ?req, PreResponse host_up ?req] cached_stamped_user))
              = emitted (trace cached_stamped_user) @ [r]
          \<and> isMutation r
          \<and> body_originalValues r = Some (default_obj (fst (diffFunc ?C
                 (Obj [(''name'', Str ''A'')]) (Obj [(''name'', Str ''B'')]))))
          \<and> body_newValues r = Some (default_obj (snd (diffFunc ?C
                 (Obj [(''name'', Str ''A'')]) (Obj [(''name'', Str ''B'')]))))"
    using update_record_carries_diff_result [OF h1 h2 h3 h4 h5 h6 h7 h8 h9 h10 h11 h12] .
  then show ?thesis
    using ev by (auto simp: cached_stamped_user_def initial_def pass_through_def default_obj_def)
qed

text \<open>
  C2 as stated fails in two ways, with the baseline \<open>{name: "A"}\<close> in the cache, the
  payload \<open>{name: "B"}\<close> and no skip list. Under the default options the record
  published has two empty objects as \<open>originalValues\<close> and \<open>newValues\<close>. And under a
  pass-through \<open>diffFunc\<close>, when the request body is not a stream but the response
  source is one, the pre-response phase tests \<open>isStream(source)\<close> where the
  pre-handler tested \<open>isStream(payload)\<close>: it leaves the record that the pre-handler
  built and publishes one made from the cache entry that the pre-handler evicted and
  from a new internal read, with \<open>originalValues\<close> the empty object and \<open>newValues\<close>
  what the read returned.
\<close>

theorem update_record_counterexample:
  "oldValsCache cached_user ''get:/api/users/42'' = Some (Obj [(''name'', Str ''A'')])
   \<and> payload put_user = Obj [(''name'', Str ''B'')]
   \<and> emitted (trace (run utils_spec default_settings
        [PreHandler host_up put_user, PreResponse host_up put_user] cached_user))
     = [AuditMutation (Str ''client-app'') (Str ''MUTATION'')
          \<lparr>entity = Str ''users'', entityId = Str ''42'', action = Str ''UPDATE'',
           username = Str ''alice'', timestamp = 1000,
           originalValues = Obj [], newValues = Obj []\<rparr> (Str ''SUCCESS'')]
   \<and> (\<exists>r. emitted (trace (run utils_spec default_settings
              [PreHandler host_up put_user, PreResponse host_up put_user] cached_user)) = [r]
          \<and> body_originalValues r \<noteq> Some (Obj [(''name'', Str ''A'')])
          \<and> body_newValues r \<noteq> Some (Obj [(''name'', Str ''B'')]))
   \<and> payload put_user_streamed_reply = Obj [(''name'', Str ''B'')]
   \<and> \<not> isStream utils_spec (payload put_user_streamed_reply)
   \<and> isStream utils_spec (response_source put_user_streamed_reply)
   \<and> isSuccessfulResponse utils_spec (response_statusCode put_user_streamed_reply)
   \<and> auditValues (run utils_spec (default_settings\<lparr>diffFunc := pass_through\<rparr>)
        [PreHandler host_up put_user_streamed_reply] cached_user) ''put:/api/users/42''
     = Some (AuditMutation (Str ''client-app'') (Str ''MUTATION'')
          \<lparr>entity = Str ''users'', entityId = Str ''42'', action = Str ''UPDATE'',
           username = Str ''alice'', timestamp = 1000,
           originalValues = Obj [(''name'', Str ''A'')],
           newValues = Obj [(''name'', Str ''B'')]\<rparr> (Str ''SUCCESS''))
   \<and> emitted (trace (run utils_spec (default_settings\<lparr>diffFunc := pass_through\<rparr>)
        [PreHandler host_up put_user_streamed_reply, PreResponse host_up put_user_streamed_reply]
        cached_user))
     = [AuditMutation (Str ''client-app'') (Str ''MUTATION'')
          \<lparr>entity = Str ''users'', entityId = Str ''42'', action = Str ''UPDATE'',
           username = Str ''alice'', timestamp = 1000,
           originalValues = Obj [], newValues = Obj [(''name'', Str ''A'')]\<rparr>
          (Str ''SUCCESS'')]"
  by (simp add: handler_defs demo_defs effect_defs enum_defs letter_defs record_defs Let_def)

section \<open>The cache across a run\<close>

lemma events_since_emit:
  "prefix (trace s) (trace t) \<Longrightarrow> events_since s (emit_event e t) = events_since s t @ [e]"
  by (auto simp: events_since_def emit_event_def prefix_def)

lemma events_since_trans:
  "prefix (trace s) (trace t) \<Longrightarrow> prefix (trace t) (trace u) \<Longrightarrow>
     events_since s u = events_since s t @ events_since t u"
  by (auto simp: events_since_def prefix_def)

lemma frame_refl: "cache_frame s s"
  by (simp add: cache_frame_def)

lemma frame_trans:
  assumes "cache_frame s t" and "cache_frame t u"
  shows "cache_frame s u"
proof -
  have p: "prefix (trace s) (trace t)" "prefix (trace t) (trace u)"
    using assms by (simp_all add: cache_frame_def)
  have e: "events_since s u = events_since s t @ events_since t u"
    using p by (rule events_since_trans)
  have "prefix (trace s) (trace u)"
    using p by (rule prefix_order.trans)
  moreover have "oldValsCache u k = None \<or> oldValsCache u k = oldValsCache s k
            \<or> (\<exists>v. CacheSet k v \<in> set (events_since s u))" for k
    using assms unfolding cache_frame_def e by (metis Un_iff set_append)
  ultimately show ?thesis
    by (simp add: cache_frame_def)
qed

lemma frame_emit: "cache_frame s t \<Longrightarrow> cache_frame s (emit_event e t)"
proof -
  assume a: "cache_frame s t"
  have "cache_frame t (emit_event e t)"
    by (auto simp: cache_frame_def emit_event_def events_since_def)
  with a show ?thesis by (rule frame_trans)
qed

lemma frame_set: "cache_frame s t \<Longrightarrow> cache_frame s (cacheSet k v t)"
proof -
  assume a: "cache_frame s t"
  have "cache_frame t (cacheSet k v t)"
    by (auto simp: cache_frame_def cacheSet_def emit_event_def events_since_def)
  with a show ?thesis by (rule frame_trans)
qed

lemma frame_delete: "cache_frame s t \<Longrightarrow> cache_frame s (cacheDelete k t)"
proof -
  assume a: "cache_frame s t"
  have "cache_frame t (cacheDelete k t)"
    by (auto simp: cache_frame_def cacheDelete_def emit_event_def events_since_def)
  with a show ?thesis by (rule frame_trans)
qed

lemma frame_pending: "cache_frame s t \<Longrightarrow> cache_frame s (t\<lparr>auditValues := x\<rparr>)"
  by (simp add: cache_frame_def events_since_def)

lemma frame_handleError: "cache_frame s t \<Longrightarrow> cache_frame s (handleError C e t)"
  by (cases "showErrorsOnStdErr C") (simp_all add: handleError_def Let_def frame_emit)

lemmas frame_rules = frame_emit frame_set frame_delete frame_pending frame_handleError

lemma pre_update_frame: "cache_frame s (snd (preHandler_update U C H req a u s))"
  apply (simp add: preHandler_update_def fetchValues_def cacheGet_def Let_def case_prod_beta
        split: sum.split prod.split if_split option.split)
  apply (intro conjI impI allI frame_rules frame_refl)
  done

lemma pre_delete_frame: "cache_frame s (snd (preHandler_delete U C H req a u s))"
  apply (simp add: preHandler_delete_def fetchValues_def Let_def case_prod_beta
        split: sum.split prod.split if_split option.split)
  apply (intro conjI impI allI frame_rules frame_refl)
  done

lemma post_record_frame: "cache_frame s (snd (preResponse_record U C H req a u r0 s))"
  apply (simp add: preResponse_record_def fetchValues_def cacheGet_def Let_def case_prod_beta
        split: sum.split prod.split if_split option.split)
  apply (intro conjI impI allI frame_rules frame_refl)
  done


lemma emitAuditEvent_frame:
  "cache_frame s t \<Longrightarrow> cache_frame s (snd (emitAuditEvent C r k t))"
  by (cases r) (simp_all add: emitAuditEvent_def frame_emit frame_pending)

lemma onPreHandler_frame: "cache_frame s (snd (onPreHandler U C H req s))"
proof -
  let ?a = "auditing_of req"
  let ?u = "getUser U req (sidUsernameAttribute C)"
  have t: "cache_frame s (snd (preHandler_try U C H req s))"
    using pre_update_frame [of s U C H req ?a ?u] pre_delete_frame [of s U C H req ?a ?u]
    by (auto simp: preHandler_try_def Let_def frame_refl)
  show ?thesis
    using t by (cases "preHandler_try U C H req s")
      (auto simp: onPreHandler_def frame_handleError split: option.split)
qed

lemma onPreResponse_frame: "cache_frame s (snd (onPreResponse U C H req s))"
proof -
  let ?a = "auditing_of req"
  let ?u = "getUser U req (sidUsernameAttribute C)"
  have t: "cache_frame s (snd (preResponse_try U C H req s))"
  proof (cases "isDisabled U ?a \<or> \<not> isLoggedIn U ?u
                 \<or> \<not> isAuditable C (pathname req) (method req)")
    case True
    then show ?thesis
      by (auto simp: preResponse_try_def Let_def frame_refl)
  next
    case False
    show ?thesis
    proof (cases "preResponse_override U C H req ?a ?u")
      case (Inl e)
      then show ?thesis
        using False by (simp add: preResponse_try_def Let_def frame_refl)
    next
      case (Inr r0)
      obtain res s1 where rc: "preResponse_record U C H req ?a ?u r0 s = (res, s1)"
        by (cases "preResponse_record U C H req ?a ?u r0 s")
      have i: "cache_frame s s1"
        using post_record_frame [of s U C H req ?a ?u r0] rc by simp
      show ?thesis
        using False Inr rc i emitAuditEvent_frame [OF i]
        by (cases res) (simp_all add: preResponse_try_def Let_def)
    qed
  qed
  show ?thesis
    using t by (cases "preResponse_try U C H req s")
      (auto simp: onPreResponse_def frame_handleError split: option.split)
qed

lemma exec_frame: "cache_frame s (exec U C st s)"
proof (cases st)
  case (PreHandler H req)
  then show ?thesis by (simp add: onPreHandler_frame)
next
  case (PreResponse H req)
  then show ?thesis by (simp add: onPreResponse_frame)
next
  case Sweep
  then show ?thesis by (simp add: sweep_def cache_frame_def events_since_def)
qed

lemma run_frame: "cache_frame s (run U C steps s)"
proof (induction steps arbitrary: s)
  case Nil
  then show ?case by (simp add: frame_refl)
next
  case (Cons st steps)
  have "cache_frame s (exec U C st s)" by (rule exec_frame)
  moreover have "cache_frame (exec U C st s) (run U C steps (exec U C st s))" by (rule Cons.IH)
  ultimately show ?case
    using frame_trans by simp
qed

lemma cached_baseline_consumed:
  assumes "\<not> isDisabled U (auditing_of req)"
    and "isLoggedIn U (getUser U req (sidUsernameAttribute C))"
    and "isAuditable C (pathname req) (method req)"
    and "\<not> truthy (rt_action (auditing_of req))"
    and "isUpdate U (method req)"
    and "\<not> disableCache C"
    and "toEndpoint U ''get'' (pathname req) (rt_getPath (auditing_of req)) = k"
    and "oldValsCache s k = Some b"
    and "\<not> nullish b"
  shows "take 2 (events_since s (snd (onPreHandler U C H req s))) = [CacheGet k b, CacheDelete k]
         \<and> (oldValsCache (snd (onPreHandler U C H req s)) k = None
            \<or> (\<exists>v. CacheSet k v \<in> set (drop 2 (events_since s (snd (onPreHandler U C H req s))))))"
proof -
  let ?a = "auditing_of req"
  let ?u = "getUser U req (sidUsernameAttribute C)"
  have n: "b \<noteq> Null" using assms(9) by auto
  have t: "preHandler_try U C H req s = preHandler_update U C H req ?a ?u s"
    using assms(1-5) by (simp add: preHandler_try_def Let_def)
  show ?thesis
    using assms(6-9) n
    by (simp add: onPreHandler_def t preHandler_update_def cacheGet_def cacheDelete_def
          cacheSet_def emit_event_def handleError_def events_since_def Let_def case_prod_beta
          split: sum.split)
qed

lemma absent_baseline_fetched:
  assumes "\<not> isDisabled U (auditing_of req)"
    and "isLoggedIn U (getUser U req (sidUsernameAttribute C))"
    and "isAuditable C (pathname req) (method req)"
    and "\<not> truthy (rt_action (auditing_of req))"
    and "isUpdate U (method req)"
    and "\<not> disableCache C"
    and "toEndpoint U ''get'' (pathname req) (rt_getPath (auditing_of req)) = k"
    and "oldValsCache s k = None"
  shows "take 2 (events_since s (snd (onPreHandler U C H req s)))
           = [CacheGet k Undefined, Inject (pathname req)]"
proof -
  let ?a = "auditing_of req"
  let ?u = "getUser U req (sidUsernameAttribute C)"
  have t: "preHandler_try U C H req s = preHandler_update U C H req ?a ?u s"
    using assms(1-5) by (simp add: preHandler_try_def Let_def)
  show ?thesis
    using assms(6-8)
    by (simp add: onPreHandler_def t preHandler_update_def cacheGet_def cacheDelete_def
          cacheSet_def emit_event_def handleError_def fetchValues_def events_since_def Let_def
          case_prod_beta split: sum.split)
qed

lemma idle_refl: "oldValsCache s = Map.empty \<Longrightarrow> cache_idle s s"
  by (simp add: cache_idle_def events_since_def)

lemma idle_emit:
  "cache_idle s t \<Longrightarrow> (oldValsCache t = Map.empty \<Longrightarrow> quiet e) \<Longrightarrow> cache_idle s (emit_event e t)"
  by (auto simp: cache_idle_def events_since_emit) (auto simp: emit_event_def prefix_def)

lemma idle_delete: "cache_idle s t \<Longrightarrow> cache_idle s (cacheDelete k t)"
  unfolding cacheDelete_def
  by (rule idle_emit) (auto simp: cache_idle_def events_since_def)

lemma idle_pending: "cache_idle s t \<Longrightarrow> cache_idle s (t\<lparr>auditValues := x\<rparr>)"
  by (simp add: cache_idle_def events_since_def)

lemma idle_handleError: "cache_idle s t \<Longrightarrow> cache_idle s (handleError C e t)"
  by (cases "showErrorsOnStdErr C") (simp_all add: handleError_def Let_def idle_emit)

lemma idle_trans:
  assumes "cache_idle s t" and "cache_idle t u"
  shows "cache_idle s u"
proof -
  have p: "prefix (trace s) (trace t)" "prefix (trace t) (trace u)"
    using assms by (simp_all add: cache_idle_def)
  have "events_since s u = events_since s t @ events_since t u"
    using p by (rule events_since_trans)
  moreover have "prefix (trace s) (trace u)"
    using p by (rule prefix_order.trans)
  ultimately show ?thesis
    using assms by (simp add: cache_idle_def)
qed

lemmas idle_rules = idle_emit idle_delete idle_pending idle_handleError

lemma pre_update_idle:
  assumes "oldValsCache s = Map.empty" and "disableCache C" and "\<not> isStream U (payload req)"
  shows "cache_idle s (snd (preHandler_update U C H req a u s))"
  using assms
  apply (simp add: preHandler_update_def fetchValues_def cacheGet_def Let_def case_prod_beta
        split: sum.split prod.split if_split option.split)
  apply (intro conjI impI allI idle_rules idle_refl; simp)
  done

lemma pre_delete_idle:
  assumes "oldValsCache s = Map.empty"
  shows "cache_idle s (snd (preHandler_delete U C H req a u s))"
  using assms
  apply (simp add: preHandler_delete_def fetchValues_def Let_def case_prod_beta
        split: sum.split prod.split if_split option.split)
  apply (intro conjI impI allI idle_rules idle_refl; simp)
  done

lemma onPreHandler_idle:
  assumes "oldValsCache s = Map.empty" and "disableCache C"
    and "\<not> (isUpdate U (method req) \<and> isStream U (payload req))"
  shows "cache_idle s (snd (onPreHandler U C H req s))"
proof -
  let ?a = "auditing_of req"
  let ?u = "getUser U req (sidUsernameAttribute C)"
  have t: "cache_idle s (snd (preHandler_try U C H req s))"
    using assms pre_update_idle [of s C U req H ?a ?u] pre_delete_idle [of s U C H req ?a ?u]
    by (auto simp: preHandler_try_def Let_def idle_refl)
  show ?thesis
    using t by (cases "preHandler_try U C H req s")
      (auto simp: onPreHandler_def idle_handleError split: option.split)
qed

lemma post_record_idle:
  assumes "oldValsCache s = Map.empty" and "disableCache C"
  shows "cache_idle s (snd (preResponse_record U C H req a u r0 s))"
  using assms
  apply (simp add: preResponse_record_def fetchValues_def cacheGet_def Let_def case_prod_beta
        split: sum.split prod.split if_split option.split)
  apply (intro conjI impI allI idle_rules idle_refl; simp)
  done

lemma emitAuditEvent_idle:
  "cache_idle s t \<Longrightarrow> cache_idle s (snd (emitAuditEvent C r k t))"
  by (cases r) (simp_all add: emitAuditEvent_def idle_emit idle_pending)

lemma onPreResponse_idle:
  assumes "oldValsCache s = Map.empty" and "disableCache C"
  shows "cache_idle s (snd (onPreResponse U C H req s))"
proof -
  let ?a = "auditing_of req"
  let ?u = "getUser U req (sidUsernameAttribute C)"
  have t: "cache_idle s (snd (preResponse_try U C H req s))"
  proof (cases "isDisabled U ?a \<or> \<not> isLoggedIn U ?u
                 \<or> \<not> isAuditable C (pathname req) (method req)")
    case True
    then show ?thesis
      using assms(1) by (auto simp: preResponse_try_def Let_def idle_refl)
  next
    case False
    show ?thesis
    proof (cases "preResponse_override U C H req ?a ?u")
      case (Inl e)
      then show ?thesis
        using False assms(1) by (simp add: preResponse_try_def Let_def idle_refl)
    next
      case (Inr r0)
      obtain res s1 where rc: "preResponse_record U C H req ?a ?u r0 s = (res, s1)"
        by (cases "preResponse_record U C H req ?a ?u r0 s")
      have i: "cache_idle s s1"
        using post_record_idle [OF assms, of U H req ?a ?u r0] rc by simp
      show ?thesis
        using False Inr rc i emitAuditEvent_idle [OF i]
        by (cases res) (simp_all add: preResponse_try_def Let_def)
    qed
  qed
  show ?thesis
    using t by (cases "preResponse_try U C H req s")
      (auto simp: onPreResponse_def idle_handleError split: option.split)
qed

lemma exec_idle:
  assumes "oldValsCache s = Map.empty" and "disableCache C" and "\<not> streams_update U st"
  shows "cache_idle s (exec U C st s)"
proof (cases st)
  case (PreHandler H req)
  then show ?thesis
    using assms onPreHandler_idle [of s C U req H] by simp
next
  case (PreResponse H req)
  then show ?thesis
    using assms onPreResponse_idle [of s C U H req] by simp
next
  case Sweep
  then show ?thesis
    using assms by (simp add: sweep_def cache_idle_def events_since_def)
qed

lemma run_idle:
  assumes "disableCache C"
  shows "oldValsCache s = Map.empty \<Longrightarrow> \<forall>st \<in> set steps. \<not> streams_update U st \<Longrightarrow>
           cache_idle s (run U C steps s)"
proof (induction steps arbitrary: s)
  case Nil
  then show ?case by (simp add: idle_refl)
next
  case (Cons st steps)
  have 1: "cache_idle s (exec U C st s)"
    using exec_idle [OF Cons.prems(1) assms] Cons.prems(2) by simp
  then have "oldValsCache (exec U C st s) = Map.empty"
    by (simp add: cache_idle_def)
  then have "cache_idle (exec U C st s) (run U C steps (exec U C st s))"
    using Cons.IH Cons.prems(2) by simp
  then show ?case
    using 1 idle_trans by simp
qed

lemma disabled_cache_fetches:
  assumes "\<not> isDisabled U (auditing_of req)"
    and "isLoggedIn U (getUser U req (sidUsernameAttribute C))"
    and "isAuditable C (pathname req) (method req)"
    and "\<not> truthy (rt_action (auditing_of req))"
    and "isUpdate U (method req) \<or> isDelete U (method req)"
    and "disableCache C"
  shows "take 1 (events_since s (snd (onPreHandler U C H req s))) = [Inject (pathname req)]"
proof (cases "isUpdate U (method req)")
  case True
  let ?a = "auditing_of req"
  let ?u = "getUser U req (sidUsernameAttribute C)"
  have t: "preHandler_try U C H req s = preHandler_update U C H req ?a ?u s"
    using assms(1-4) True by (simp add: preHandler_try_def Let_def)
  show ?thesis
    using assms(6)
    by (simp add: onPreHandler_def t preHandler_update_def cacheSet_def emit_event_def
          handleError_def fetchValues_def events_since_def Let_def case_prod_beta
          split: sum.split)
next
  case False
  let ?a = "auditing_of req"
  let ?u = "getUser U req (sidUsernameAttribute C)"
  have t: "preHandler_try U C H req s = preHandler_delete U C H req ?a ?u s"
    using assms(1-5) False by (simp add: preHandler_try_def Let_def)
  show ?thesis
    by (simp add: onPreHandler_def t preHandler_delete_def emit_event_def
          handleError_def fetchValues_def events_since_def Let_def case_prod_beta
          split: sum.split)
qed

text \<open>
  C3, in the form that holds. With \<open>disableCache\<close> set and the cache empty, as it is at
  registration, over every run of request phases and timer ticks in which no UPDATE
  has a stream as its body: the cache stays empty, no \<open>set\<close> is made on it and every
  \<open>get\<close> misses; and the pre-handler of every UPDATE and DELETE that it does not skip
  begins with the internal read of the baseline.
\<close>

theorem disabled_cache_is_bypassed:
  assumes "disableCache C"
    and "oldValsCache s = Map.empty"
    and "\<forall>st \<in> set steps. \<not> streams_update U st"
  shows "oldValsCache (run U C steps s) = Map.empty
         \<and> list_all quiet (events_since s (run U C steps s))
         \<and> (\<forall>H req s'.
               \<not> isDisabled U (auditing_of req)
               \<and> isLoggedIn U (getUser U req (sidUsernameAttribute C))
               \<and> isAuditable C (pathname req) (method req)
               \<and> \<not> truthy (rt_action (auditing_of req))
               \<and> (isUpdate U (method req) \<or> isDelete U (method req))
               \<longrightarrow> take 1 (events_since s' (exec U C (PreHandler H req) s'))
                     = [Inject (pathname req)])"
  using run_idle [OF assms] disabled_cache_fetches [OF _ _ _ _ _ assms(1)]
  by (simp add: cache_idle_def)

theorem disabled_cache_is_bypassed_witness:
  "oldValsCache (run utils_spec (default_settings\<lparr>disableCache := True\<rparr>)
       [PreResponse host_up get_user, PreHandler host_up put_user, PreResponse host_up put_user,
        PreHandler host_up delete_user, PreResponse host_up delete_user] initial) = Map.empty
   \<and> list_all quiet (events_since initial
         (run utils_spec (default_settings\<lparr>disableCache := True\<rparr>)
            [PreResponse host_up get_user, PreHandler host_up put_user,
             PreResponse host_up put_user, PreHandler host_up delete_user,
             PreResponse host_up delete_user] initial))
   \<and> take 1 (events_since initial
         (exec utils_spec (default_settings\<lparr>disableCache := True\<rparr>)
            (PreHandler host_up put_user) initial)) = [Inject ''/api/users/42'']
   \<and> take 1 (events_since initial
         (exec utils_spec (default_settings\<lparr>disableCache := True\<rparr>)
            (PreHandler host_up delete_user) initial)) = [Inject ''/api/users/42'']"
proof -
  let ?C = "default_settings\<lparr>disableCache := True\<rparr>"
  let ?steps = "[PreResponse host_up get_user, PreHandler host_up put_user,
                 PreResponse host_up put_user, PreHandler host_up delete_user,
                 PreResponse host_up delete_user]"
  have h1: "disableCache ?C" by simp
  have h2: "oldValsCache initial = Map.empty" by (simp add: initial_def)
  have h3: "\<forall>st \<in> set ?steps. \<not> streams_update utils_spec st"
    by (simp add: demo_defs)
  have th: "oldValsCache (run utils_spec ?C ?steps initial) = Map.empty
         \<and> list_all quiet (events_since initial (run utils_spec ?C ?steps initial))
         \<and> (\<forall>H req s'.
               \<not> isDisabled utils_spec (auditing_of req)
               \<and> isLoggedIn utils_spec (getUser utils_spec req (sidUsernameAttribute ?C))
               \<and> isAuditable ?C (pathname req) (method req)
               \<and> \<not> truthy (rt_action (auditing_of req))
               \<and> (isUpdate utils_spec (method req) \<or> isDelete utils_spec (method req))
               \<longrightarrow> take 1 (events_since s' (exec utils_spec ?C (PreHandler H req) s'))
                     = [Inject (pathname req)])"
    using disabled_cache_is_bypassed [OF h1 h2 h3] .
  have p: "\<not> isDisabled utils_spec (auditing_of put_user)
           \<and> isLoggedIn utils_spec (getUser utils_spec put_user (sidUsernameAttribute ?C))
           \<and> isAuditable ?C (pathname put_user) (method put_user)
           \<and> \<not> truthy (rt_action (auditing_of put_user))
           \<and> (isUpdate utils_spec (method put_user) \<or> isDelete utils_spec (method put_user))"
    by (simp add: demo_defs auditing_of_def no_auditing_def letter_defs)
  have d: "\<not> isDisabled utils_spec (auditing_of delete_user)
           \<and> isLoggedIn utils_spec (getUser utils_spec delete_user (sidUsernameAttribute ?C))
           \<and> isAuditable ?C (pathname delete_user) (method delete_user)
           \<and> \<not> truthy (rt_action (auditing_of delete_user))
           \<and> (isUpdate utils_spec (method delete_user) \<or> isDelete utils_spec (method delete_user))"
    by (simp add: demo_defs auditing_of_def no_auditing_def letter_defs)
  have "take 1 (events_since initial (exec utils_spec ?C (PreHandler host_up put_user) initial))
          = [Inject (pathname put_user)]"
    using th p by blast
  moreover have "take 1 (events_since initial
                   (exec utils_spec ?C (PreHandler host_up delete_user) initial))
          = [Inject (pathname delete_user)]"
    using th d by blast
  moreover have "pathname put_user = ''/api/users/42''"
    and "pathname delete_user = ''/api/users/42''"
    by (simp_all add: demo_defs)
  ultimately show ?thesis
    using th by simp
qed

text \<open>
  C3 as stated fails for an UPDATE whose body is a stream: with \<open>disableCache\<close> set,
  its pre-handler stores the fetched baseline in the cache, and its pre-response
  phase reads it back with a hit.
\<close>

theorem disabled_cache_counterexample:
  "disableCache (default_settings\<lparr>disableCache := True\<rparr>)
   \<and> oldValsCache initial ''get:/api/users/42'' = None
   \<and> oldValsCache (run utils_spec (default_settings\<lparr>disableCache := True\<rparr>)
         [PreHandler host_up put_stream] initial) ''get:/api/users/42''
       = Some (Obj [(''name'', Str ''A'')])
   \<and> take 3 (events_since initial
         (run utils_spec (default_settings\<lparr>disableCache := True\<rparr>)
            [PreHandler host_up put_stream, PreResponse host_up put_stream] initial))
       = [Inject ''/api/users/42'',
          CacheSet ''get:/api/users/42'' (Obj [(''name'', Str ''A'')]),
          CacheGet ''get:/api/users/42'' (Obj [(''name'', Str ''A'')])]"
  by (simp add: handler_defs demo_defs effect_defs enum_defs letter_defs record_defs
        events_since_def Let_def)

text \<open>
  C7. A pre-handler of an UPDATE that finds a baseline in the cache deletes the entry
  right after reading it. If nothing sets the entry again after that deletion, all
  through the phases and timer ticks that follow, the entry is absent, and the
  pre-handler of a later UPDATE on the same read endpoint misses the cache and makes
  the internal read.
\<close>

theorem cached_baseline_is_consumed_once:
  assumes "\<not> isDisabled U (auditing_of req)"
    and "isLoggedIn U (getUser U req (sidUsernameAttribute C))"
    and "isAuditable C (pathname req) (method req)"
    and "\<not> truthy (rt_action (auditing_of req))"
    and "isUpdate U (method req)"
    and "\<not> disableCache C"
    and "toEndpoint U ''get'' (pathname req) (rt_getPath (auditing_of req)) = k"
    and "oldValsCache s k = Some b"
    and "\<not> nullish b"
    and "\<forall>v. CacheSet k v
            \<notin> set (drop 2 (events_since s (run U C (PreHandler H req # steps) s)))"
    and "\<not> isDisabled U (auditing_of req')"
    and "isLoggedIn U (getUser U req' (sidUsernameAttribute C))"
    and "isAuditable C (pathname req') (method req')"
    and "\<not> truthy (rt_action (auditing_of req'))"
    and "isUpdate U (method req')"
    and "toEndpoint U ''get'' (pathname req') (rt_getPath (auditing_of req')) = k"
  shows "take 2 (events_since s (exec U C (PreHandler H req) s)) = [CacheGet k b, CacheDelete k]
         \<and> oldValsCache (run U C (PreHandler H req # steps) s) k = None
         \<and> take 2 (events_since (run U C (PreHandler H req # steps) s)
                     (exec U C (PreHandler H' req') (run U C (PreHandler H req # steps) s)))
             = [CacheGet k Undefined, Inject (pathname req')]"
proof -
  let ?s1 = "exec U C (PreHandler H req) s"
  let ?s2 = "run U C (PreHandler H req # steps) s"
  have c: "take 2 (events_since s ?s1) = [CacheGet k b, CacheDelete k]
           \<and> (oldValsCache ?s1 k = None
              \<or> (\<exists>v. CacheSet k v \<in> set (drop 2 (events_since s ?s1))))"
    using cached_baseline_consumed [OF assms(1-9)] by simp
  have f1: "cache_frame s ?s1" by (rule exec_frame)
  have f2: "cache_frame ?s1 ?s2" using run_frame [of ?s1 U C steps] by simp
  have e: "events_since s ?s2 = events_since s ?s1 @ events_since ?s1 ?s2"
    using f1 f2 by (simp add: cache_frame_def events_since_trans)
  have "length (take 2 (events_since s ?s1)) = 2"
    using c by simp
  then have len: "2 \<le> length (events_since s ?s1)"
    by simp
  have "drop 2 (events_since s ?s2) = drop 2 (events_since s ?s1 @ events_since ?s1 ?s2)"
    using e by (rule arg_cong)
  also have "\<dots> = drop 2 (events_since s ?s1) @ events_since ?s1 ?s2"
    using len by simp
  finally have d: "drop 2 (events_since s ?s2)
                     = drop 2 (events_since s ?s1) @ events_since ?s1 ?s2" .
  have n1: "\<forall>v. CacheSet k v \<notin> set (drop 2 (events_since s ?s1))"
    and n2: "\<forall>v. CacheSet k v \<notin> set (events_since ?s1 ?s2)"
    using assms(10) unfolding d by auto
  have a1: "oldValsCache ?s1 k = None"
    using c n1 by blast
  have "oldValsCache ?s2 k = None \<or> oldValsCache ?s2 k = oldValsCache ?s1 k
        \<or> (\<exists>v. CacheSet k v \<in> set (events_since ?s1 ?s2))"
    using f2 by (simp add: cache_frame_def)
  then have a2: "oldValsCache ?s2 k = None"
    using a1 n2 by auto
  have "take 2 (events_since ?s2 (snd (onPreHandler U C H' req' ?s2)))
          = [CacheGet k Undefined, Inject (pathname req')]"
    using absent_baseline_fetched [OF assms(11-15) assms(6) assms(16) a2] .
  then show ?thesis
    using c a2 by simp
qed

theorem cached_baseline_is_consumed_once_witness:
  "oldValsCache (run utils_spec default_settings [PreResponse host_up get_user] initial)
       ''get:/api/users/42'' = Some (Obj [(''name'', Str ''A'')])
   \<and> take 2 (events_since cached_user
         (exec utils_spec default_settings (PreHandler host_up put_user) cached_user))
       = [CacheGet ''get:/api/users/42'' (Obj [(''name'', Str ''A'')]),
          CacheDelete ''get:/api/users/42'']
   \<and> oldValsCache (run utils_spec default_settings
         [PreHandler host_up put_user, PreResponse host_up put_user] cached_user)
       ''get:/api/users/42'' = None
   \<and> take 2 (events_since
         (run utils_spec default_settings
            [PreHandler host_up put_user, PreResponse host_up put_user] cached_user)
         (exec utils_spec default_settings (PreHandler host_up put_user)
            (run utils_spec default_settings
               [PreHandler host_up put_user, PreResponse host_up put_user] cached_user)))
       = [CacheGet ''get:/api/users/42'' Undefined, Inject ''/api/users/42'']"
proof -
  let ?C = default_settings
  let ?k = "''get:/api/users/42''"
  have g: "oldValsCache (run utils_spec ?C [PreResponse host_up get_user] initial) ?k
             = Some (Obj [(''name'', Str ''A'')])"
    by (simp add: handler_defs demo_defs effect_defs enum_defs letter_defs record_defs Let_def)
  have h1: "\<not> isDisabled utils_spec (auditing_of put_user)"
    by (simp add: demo_defs auditing_of_def no_auditing_def)
  have h2: "isLoggedIn utils_spec (getUser utils_spec put_user (sidUsernameAttribute ?C))"
    by (simp add: demo_defs)
  have h3: "isAuditable ?C (pathname put_user) (method put_user)"
    by (simp add: demo_defs)
  have h4: "\<not> truthy (rt_action (auditing_of put_user))"
    by (simp add: demo_defs auditing_of_def no_auditing_def)
  have h5: "isUpdate utils_spec (method put_user)"
    by (simp add: demo_defs letter_defs)
  have h6: "\<not> disableCache ?C"
    by (simp add: demo_defs)
  have h7: "toEndpoint utils_spec ''get'' (pathname put_user) (rt_getPath (auditing_of put_user))
              = ?k"
    by (simp add: demo_defs auditing_of_def no_auditing_def)
  have h8: "oldValsCache cached_user ?k = Some (Obj [(''name'', Str ''A'')])"
    by (simp add: demo_defs)
  have h9: "\<not> nullish (Obj [(''name'', Str ''A'')])"
    by simp
  have h10: "\<forall>v. CacheSet ?k v \<notin> set (drop 2 (events_since cached_user
               (run utils_spec ?C (PreHandler host_up put_user # [PreResponse host_up put_user])
                  cached_user)))"
    by (simp add: handler_defs demo_defs effect_defs enum_defs letter_defs record_defs
          events_since_def Let_def)
  show ?thesis
    using cached_baseline_is_consumed_once
      [OF h1 h2 h3 h4 h5 h6 h7 h8 h9 h10 h1 h2 h3 h4 h5 h7, of host_up] g
    by (simp add: demo_defs)
qed

end
